theory Spec2Isabelle
  imports Complex_Main "HOL-Library.Log_Nat"
begin

section \<open>The numbers of the JavaScript runtime\<close>

text \<open>
  The dashboard code is TypeScript, and its \<open>number\<close> values are IEEE 754 double
  precision numbers. A number is modelled as \<open>Fin x\<close>, a finite double with the exact
  value \<open>x\<close>, or as one of the two infinities, or as \<open>NaN\<close>. The two zeros of the
  format are one value here: they compare equal, and no quotient of the code has a
  computed zero as its divisor without testing it first.
\<close>

datatype jsnum = Fin real | PInf | NInf | NaN

text \<open>
  Rounding to the nearest double, ties to the even significand. For \<open>a > 0\<close>,
  \<open>exponent a\<close> is the binary exponent \<open>floor (log2 a)\<close>, computed from the bit
  length of an integer part; below the exponent -1022 the doubles are equally spaced
  (the subnormal range), and a result of \<open>2 ^ 1024\<close> or more is an infinity.
\<close>

definition exponent :: "real \<Rightarrow> int" where
  "exponent a = (if 1 \<le> a then bitlen \<lfloor>a\<rfloor> - 1 else - bitlen (\<lceil>1 / a\<rceil> - 1))"

definition round_even :: "real \<Rightarrow> int" where
  "round_even y =
     (let f = \<lfloor>y\<rfloor>
      in if y - of_int f < 1 / 2 then f
         else if 1 / 2 < y - of_int f then f + 1
         else if even f then f else f + 1)"

definition bexp :: "real \<Rightarrow> int" where
  "bexp a = max (exponent a) (- 1022)"

definition ulp :: "real \<Rightarrow> real" where
  "ulp a = 2 powi (bexp a - 52)"

definition nearest :: "real \<Rightarrow> real" where
  "nearest a = of_int (round_even (a / ulp a)) * ulp a"

definition fl :: "real \<Rightarrow> jsnum" where
  "fl x =
     (if 0 \<le> x then (if nearest x < 2 powi 1024 then Fin (nearest x) else PInf)
      else (if nearest (- x) < 2 powi 1024 then Fin (- nearest (- x)) else NInf))"

text \<open>
  The arithmetic operators \<open>+\<close>, \<open>-\<close>, \<open>*\<close>, \<open>/\<close> and the comparison
  \<open>>\<close>: the exact result of two finite operands is rounded; the other cases are the
  ones of the standard. A quotient by zero is \<open>NaN\<close> for a zero dividend and an
  infinity otherwise.
\<close>

fun jneg :: "jsnum \<Rightarrow> jsnum" where
  "jneg (Fin x) = Fin (- x)"
| "jneg PInf = NInf"
| "jneg NInf = PInf"
| "jneg NaN = NaN"

fun jadd :: "jsnum \<Rightarrow> jsnum \<Rightarrow> jsnum" where
  "jadd (Fin x) (Fin y) = fl (x + y)"
| "jadd NaN b = NaN"
| "jadd a NaN = NaN"
| "jadd (Fin x) b = b"
| "jadd a (Fin y) = a"
| "jadd PInf PInf = PInf"
| "jadd NInf NInf = NInf"
| "jadd PInf NInf = NaN"
| "jadd NInf PInf = NaN"

definition jsub :: "jsnum \<Rightarrow> jsnum \<Rightarrow> jsnum" where
  "jsub a b = jadd a (jneg b)"

fun jmul :: "jsnum \<Rightarrow> jsnum \<Rightarrow> jsnum" where
  "jmul (Fin x) (Fin y) = fl (x * y)"
| "jmul NaN b = NaN"
| "jmul a NaN = NaN"
| "jmul (Fin x) b = (if x = 0 then NaN else if 0 < x then b else jneg b)"
| "jmul a (Fin y) = (if y = 0 then NaN else if 0 < y then a else jneg a)"
| "jmul PInf PInf = PInf"
| "jmul NInf NInf = PInf"
| "jmul PInf NInf = NInf"
| "jmul NInf PInf = NInf"

fun jdiv :: "jsnum \<Rightarrow> jsnum \<Rightarrow> jsnum" where
  "jdiv (Fin x) (Fin y) =
     (if y = 0 then (if x = 0 then NaN else if 0 < x then PInf else NInf)
      else fl (x / y))"
| "jdiv NaN b = NaN"
| "jdiv a NaN = NaN"
| "jdiv (Fin x) b = Fin 0"
| "jdiv a (Fin y) = (if 0 \<le> y then a else jneg a)"
| "jdiv PInf PInf = NaN"
| "jdiv NInf NInf = NaN"
| "jdiv PInf NInf = NaN"
| "jdiv NInf PInf = NaN"

fun jgt :: "jsnum \<Rightarrow> jsnum \<Rightarrow> bool" where
  "jgt (Fin x) (Fin y) = (y < x)"
| "jgt NaN b = False"
| "jgt a NaN = False"
| "jgt PInf (Fin y) = True"
| "jgt PInf NInf = True"
| "jgt PInf PInf = False"
| "jgt (Fin x) NInf = True"
| "jgt NInf b = False"
| "jgt (Fin x) PInf = False"

text \<open>
  \<^item> \<open>Math.floor(x)\<close> and \<open>Math.round(x)\<close> give the floor and the nearest
    integer, a half going up; both are doubles again, and the infinities and \<open>NaN\<close>
    pass through.
  \<^item> \<open>x.toFixed(d)\<close> prints the decimal with \<open>d\<close> digits nearest to the exact
    value of \<open>x\<close>, a half going away from zero; from \<open>10 ^ 21\<close> on it prints the
    number as it is. \<open>toFixed d x\<close> is the value the printed text denotes, which need
    not be a double.
  \<^item> \<open>Number(x.toFixed(d))\<close> reads that text back as a double.
\<close>

definition Math_floor :: "jsnum \<Rightarrow> jsnum" where
  "Math_floor a = (case a of Fin x \<Rightarrow> Fin (of_int \<lfloor>x\<rfloor>) | _ \<Rightarrow> a)"

definition Math_round :: "jsnum \<Rightarrow> jsnum" where
  "Math_round a = (case a of Fin x \<Rightarrow> Fin (of_int \<lfloor>x + 1 / 2\<rfloor>) | _ \<Rightarrow> a)"

definition toFixed :: "nat \<Rightarrow> jsnum \<Rightarrow> jsnum" where
  "toFixed d a =
     (case a of
        Fin x \<Rightarrow>
          (if 10 ^ 21 \<le> \<bar>x\<bar> then Fin x
           else if x < 0 then Fin (- (of_int \<lfloor>(- x) * 10 ^ d + 1 / 2\<rfloor> / 10 ^ d))
           else Fin (of_int \<lfloor>x * 10 ^ d + 1 / 2\<rfloor> / 10 ^ d))
      | _ \<Rightarrow> a)"

definition Number_toFixed :: "nat \<Rightarrow> jsnum \<Rightarrow> jsnum" where
  "Number_toFixed d a = (case toFixed d a of Fin v \<Rightarrow> fl v | b \<Rightarrow> b)"

text \<open>A numeric literal of the source denotes the double nearest to its decimal.\<close>

definition literal :: "real \<Rightarrow> jsnum" where
  "literal x = fl x"


section \<open>Strings and arrays of the JavaScript runtime\<close>

text \<open>
  A value of type \<open>string | null\<close> (or an optional string property) is a
  \<open>string option\<close>. In a condition it counts as true when it is present and not the
  empty string.
\<close>

definition truthy :: "string option \<Rightarrow> bool" where
  "truthy s = (case s of None \<Rightarrow> False | Some v \<Rightarrow> v \<noteq> [])"

text \<open>Decimal rendering of a non-negative integer, as in a template literal.\<close>

fun string_of_nat :: "nat \<Rightarrow> string" where
  "string_of_nat n =
     (if n < 10 then [''0123456789'' ! n]
      else string_of_nat (n div 10) @ [''0123456789'' ! (n mod 10)])"

definition Number_toString :: "int \<Rightarrow> string" where
  "Number_toString i = (if i < 0 then CHR ''-'' # string_of_nat (nat (- i)) else string_of_nat (nat i))"

text \<open>\<open>s.padStart(n, '0')\<close>: zeros are put in front until the length is \<open>n\<close>.\<close>

definition padStart :: "nat \<Rightarrow> char \<Rightarrow> string \<Rightarrow> string" where
  "padStart n c s = replicate (n - length s) c @ s"

text \<open>
  \<open>s.split(sep)\<close> for a one-character separator: the pieces between the
  separators, in order; a string without separator gives one piece.
\<close>

fun split :: "char \<Rightarrow> string \<Rightarrow> string list" where
  "split sep [] = [] # []"
| "split sep (x # xs) =
     (if x = sep then [] # split sep xs
      else (case split sep xs of
              [] \<Rightarrow> [x] # []
            | p # ps \<Rightarrow> (x # p) # ps))"

text \<open>
  Reading an array at an index: \<open>None\<close> stands for JavaScript's \<open>undefined\<close>,
  which is what an index outside the array gives.
\<close>

definition at_index :: "'a list \<Rightarrow> int \<Rightarrow> 'a option" where
  "at_index xs i = (if 0 \<le> i \<and> i < int (length xs) then Some (xs ! nat i) else None)"

text \<open>
  A number in a template literal and a number as an array index. The code prints
  only numbers that are integers, infinite or \<open>NaN\<close>; an index that is not an
  integer inside the array gives \<open>undefined\<close>.
\<close>

definition jsnum_toString :: "jsnum \<Rightarrow> string" where
  "jsnum_toString a =
     (case a of
        Fin x \<Rightarrow> Number_toString \<lfloor>x\<rfloor>
      | PInf \<Rightarrow> ''Infinity''
      | NInf \<Rightarrow> ''-Infinity''
      | NaN \<Rightarrow> ''NaN'')"

definition at_number :: "'a list \<Rightarrow> jsnum \<Rightarrow> 'a option" where
  "at_number xs a =
     (case a of
        Fin x \<Rightarrow> (if x = of_int \<lfloor>x\<rfloor> then at_index xs \<lfloor>x\<rfloor> else None)
      | _ \<Rightarrow> None)"


section \<open>The data model of the live feed\<close>

text \<open>
  \<open>TelemetryData\<close> is the record every consumer declares; the live feed parses it
  as \<open>TelemetryData & { unit_id?: string }\<close>, so the optional unit id is a field
  here. The status and the energy source are strings in the source (string literal
  types that nothing checks at run time), and they stay strings. The counts of
  \<open>SystemStats\<close> start at zero and grow by one, and are natural numbers.
\<close>

record TelemetryData =
  timestamp :: string
  session_id :: "string option"
  voltage_v :: jsnum
  current_a :: jsnum
  power_w :: jsnum
  session_energy_kwh_solar :: jsnum
  session_energy_kwh_grid :: jsnum
  session_total_energy_kwh :: jsnum
  energy_source :: string
  temperature_c :: jsnum
  status :: string
  unit_id :: "string option"

record EVSEUnit =
  unit_id :: string
  telemetry :: TelemetryData
  last_updated :: string

record SystemStats =
  total_power_w :: jsnum
  total_solar_energy_kwh :: jsnum
  total_grid_energy_kwh :: jsnum
  total_energy_kwh :: jsnum
  avg_temperature_c :: jsnum
  solar_percentage :: jsnum
  active_sessions :: nat
  available_units :: nat
  charging_units :: nat
  faulted_units :: nat
  last_updated :: string

text \<open>
  The fleet state is a JavaScript \<open>Map<string, EVSEUnit>\<close>, which keeps its
  entries in insertion order: an association list with one entry per key.
  \<open>Map_set\<close> replaces the value of a key in place, or appends a new entry.
\<close>

type_synonym UnitMap = "(string \<times> EVSEUnit) list"

fun Map_set :: "string \<Rightarrow> EVSEUnit \<Rightarrow> UnitMap \<Rightarrow> UnitMap" where
  "Map_set k v [] = [(k, v)]"
| "Map_set k v (p # ps) = (if fst p = k then (k, v) # ps else p # Map_set k v ps)"

definition Map_values :: "UnitMap \<Rightarrow> EVSEUnit list" where
  "Map_values units = map snd units"


section \<open>The renewable share\<close>

text \<open>
  The same expression is written in \<open>calculateSystemStats\<close>,
  \<open>generateMockData\<close> and \<open>EnergySourceIndicator\<close>:
  \<^verbatim>\<open>totalEnergy > 0 ? (solar / totalEnergy) * 100 : 0\<close>.
\<close>

definition solarPercentage :: "jsnum \<Rightarrow> jsnum \<Rightarrow> jsnum" where
  "solarPercentage solar grid =
     (let totalEnergy = jadd solar grid
      in if jgt totalEnergy (Fin 0) then jmul (jdiv solar totalEnergy) (Fin 100) else Fin 0)"

definition gridPercentage :: "jsnum \<Rightarrow> jsnum \<Rightarrow> jsnum" where
  "gridPercentage solar grid =
     (let totalEnergy = jadd solar grid
      in if jgt totalEnergy (Fin 0) then jmul (jdiv grid totalEnergy) (Fin 100) else Fin 0)"


section \<open>The fleet statistics of the live feed: \<open>calculateSystemStats\<close>\<close>

text \<open>
  The accumulator of the \<open>reduce\<close> call. Its fields carry the prefix \<open>acc_\<close>
  because the returned \<open>SystemStats\<close> has fields of the same names.
\<close>

record stats_acc =
  acc_total_power_w :: jsnum
  acc_total_solar_energy_kwh :: jsnum
  acc_total_grid_energy_kwh :: jsnum
  acc_total_temperature_c :: jsnum
  acc_active_sessions :: nat
  acc_available_units :: nat
  acc_charging_units :: nat
  acc_faulted_units :: nat

definition acc_init :: stats_acc where
  "acc_init =
     \<lparr>acc_total_power_w = Fin 0, acc_total_solar_energy_kwh = Fin 0,
      acc_total_grid_energy_kwh = Fin 0, acc_total_temperature_c = Fin 0,
      acc_active_sessions = 0, acc_available_units = 0,
      acc_charging_units = 0, acc_faulted_units = 0\<rparr>"

definition reducer :: "stats_acc \<Rightarrow> EVSEUnit \<Rightarrow> stats_acc" where
  "reducer acc unit =
     (let t = telemetry unit
      in \<lparr>acc_total_power_w = jadd (acc_total_power_w acc) (power_w t),
          acc_total_solar_energy_kwh =
            jadd (acc_total_solar_energy_kwh acc) (session_energy_kwh_solar t),
          acc_total_grid_energy_kwh =
            jadd (acc_total_grid_energy_kwh acc) (session_energy_kwh_grid t),
          acc_total_temperature_c = jadd (acc_total_temperature_c acc) (temperature_c t),
          acc_active_sessions = acc_active_sessions acc + (if truthy (session_id t) then 1 else 0),
          acc_available_units = acc_available_units acc + (if status t = ''available'' then 1 else 0),
          acc_charging_units = acc_charging_units acc + (if status t = ''charging'' then 1 else 0),
          acc_faulted_units = acc_faulted_units acc + (if status t = ''faulted'' then 1 else 0)\<rparr>)"

text \<open>
  \<open>now\<close> is the value of \<open>new Date().toISOString()\<close> at the call. The empty
  fleet is answered before anything is computed; otherwise the average temperature is a
  quotient by the number of units.
\<close>

definition calculateSystemStats :: "string \<Rightarrow> UnitMap \<Rightarrow> SystemStats" where
  "calculateSystemStats now units =
     (let unitArray = Map_values units
      in if length unitArray = 0 then
           \<lparr>total_power_w = Fin 0, total_solar_energy_kwh = Fin 0,
            total_grid_energy_kwh = Fin 0, total_energy_kwh = Fin 0,
            avg_temperature_c = Fin 0, solar_percentage = Fin 0,
            active_sessions = 0, available_units = 0, charging_units = 0,
            faulted_units = 0, last_updated = now\<rparr>
         else
           (let stats = foldl reducer acc_init unitArray;
                total_energy =
                  jadd (acc_total_solar_energy_kwh stats) (acc_total_grid_energy_kwh stats);
                solar_pct = solarPercentage (acc_total_solar_energy_kwh stats)
                                            (acc_total_grid_energy_kwh stats)
            in \<lparr>total_power_w = Math_round (acc_total_power_w stats),
                total_solar_energy_kwh = Number_toFixed 4 (acc_total_solar_energy_kwh stats),
                total_grid_energy_kwh = Number_toFixed 4 (acc_total_grid_energy_kwh stats),
                total_energy_kwh = Number_toFixed 4 total_energy,
                avg_temperature_c =
                  Number_toFixed 1
                    (jdiv (acc_total_temperature_c stats) (Fin (real (length unitArray)))),
                solar_percentage = Number_toFixed 1 solar_pct,
                active_sessions = acc_active_sessions stats,
                available_units = acc_available_units stats,
                charging_units = acc_charging_units stats,
                faulted_units = acc_faulted_units stats,
                last_updated = now\<rparr>))"

text \<open>
  The sum of a list of numbers as a loop of the code forms it: from zero, one double
  addition per element, in the order of the list.
\<close>

definition jsum :: "jsnum list \<Rightarrow> jsnum" where
  "jsum xs = foldl jadd (Fin 0) xs"


section \<open>The live-data consumer: \<open>websocket.onmessage\<close>\<close>

text \<open>
  The key under which a record is stored. \<open>now_ms\<close> is \<open>Date.now()\<close>, the
  milliseconds since the epoch. The key starts as the record's own unit id, or the
  default \<open>evse_unit_01\<close> when the record carries none; when it carries none and has
  a session id, the session id is cut at its underscores and the key is taken from its
  first pieces, or from the clock. A piece read past the end of \<open>sessionParts\<close> is
  \<open>undefined\<close>, which a template literal prints as that word.
\<close>

definition deriveUnitId :: "nat \<Rightarrow> TelemetryData \<Rightarrow> string" where
  "deriveUnitId now_ms data =
     (let unitId = (case TelemetryData.unit_id data of
                      None \<Rightarrow> ''evse_unit_01''
                    | Some u \<Rightarrow> if u \<noteq> [] then u else ''evse_unit_01'')
      in if \<not> truthy (TelemetryData.unit_id data) \<and> truthy (session_id data) then
           (case session_id data of
              None \<Rightarrow> unitId
            | Some sid \<Rightarrow>
                (let sessionParts = split CHR ''_'' sid
                 in if length sessionParts \<ge> 2 then
                      (if sessionParts ! 0 = ''evse'' \<and> sessionParts ! 1 = ''unit'' then
                         ''evse_unit_'' @
                           (case at_index sessionParts 2 of
                              None \<Rightarrow> ''undefined''
                            | Some p \<Rightarrow> p)
                       else if sessionParts ! 0 = ''sess'' then
                         (let unitNumber = (now_ms div 5000) mod 3 + 1
                          in ''evse_unit_'' @ padStart 2 CHR ''0'' (string_of_nat unitNumber))
                       else unitId)
                    else unitId))
         else unitId)"

text \<open>
  The state the handler updates, and the handler. A message that does not parse
  (\<open>None\<close>) is caught and leaves the state as it is. \<open>now_iso\<close> is
  \<open>new Date().toISOString()\<close>.
\<close>

record ConsumerState =
  telemetryData :: "TelemetryData option"
  evseUnits :: UnitMap
  systemStats :: "SystemStats option"

definition onmessage ::
    "nat \<Rightarrow> string \<Rightarrow> TelemetryData option \<Rightarrow> ConsumerState \<Rightarrow> ConsumerState" where
  "onmessage now_ms now_iso msg st =
     (case msg of
        None \<Rightarrow> st
      | Some data \<Rightarrow>
          (let unitId = deriveUnitId now_ms data;
               newUnits = Map_set unitId
                            \<lparr>EVSEUnit.unit_id = unitId, telemetry = data,
                             EVSEUnit.last_updated = now_iso\<rparr>
                            (evseUnits st);
               newStats = calculateSystemStats now_iso newUnits
           in \<lparr>telemetryData = Some data, evseUnits = newUnits,
               systemStats = Some newStats\<rparr>))"


section \<open>Cost figures of the dashboard\<close>

text \<open>
  \<open>SessionInfo\<close> derives the cost of the session on display from the energy fields
  of its telemetry record, at the two tariff constants. Neither \<open>TelemetryData\<close> nor
  \<open>SystemStats\<close> has a cost field.
\<close>

definition SOLAR_RATE :: jsnum where
  "SOLAR_RATE = Fin 10"

definition GRID_RATE :: jsnum where
  "GRID_RATE = Fin 50"

record SessionCosts =
  solarCost :: jsnum
  gridCost :: jsnum
  totalCost :: jsnum
  allGridCost :: jsnum
  savings :: jsnum

definition SessionInfo_costs :: "TelemetryData \<Rightarrow> SessionCosts" where
  "SessionInfo_costs t =
     (let solarCost' = jmul (session_energy_kwh_solar t) SOLAR_RATE;
          gridCost' = jmul (session_energy_kwh_grid t) GRID_RATE;
          totalCost' = jadd solarCost' gridCost';
          allGridCost' = jmul (session_total_energy_kwh t) GRID_RATE;
          savings' = jsub allGridCost' totalCost'
      in \<lparr>solarCost = solarCost', gridCost = gridCost', totalCost = totalCost',
          allGridCost = allGridCost', savings = savings'\<rparr>)"

text \<open>
  The amounts of money the component prints, each with \<open>toFixed(2)\<close>. It prints
  none when there is no record, on the card for an idle unit without session, and when
  the session total is not positive; otherwise it prints the solar cost, the grid cost
  and the total cost, and under them the savings when they are positive.
\<close>

record CostBreakdown =
  shown_solarCost :: jsnum
  shown_gridCost :: jsnum
  shown_totalCost :: jsnum
  shown_savings :: "jsnum option"

definition SessionInfo_shown :: "TelemetryData option \<Rightarrow> CostBreakdown option" where
  "SessionInfo_shown td =
     (case td of
        None \<Rightarrow> None
      | Some t \<Rightarrow>
          (let c = SessionInfo_costs t
           in if \<not> truthy (session_id t) \<and> TelemetryData.status t = ''available'' then None
              else if jgt (session_total_energy_kwh t) (Fin 0) then
                Some \<lparr>shown_solarCost = toFixed 2 (solarCost c),
                      shown_gridCost = toFixed 2 (gridCost c),
                      shown_totalCost = toFixed 2 (totalCost c),
                      shown_savings =
                        (if jgt (savings c) (Fin 0) then Some (toFixed 2 (savings c))
                         else None)\<rparr>
              else None))"

text \<open>
  \<open>StatsGrid\<close> computes the cost of the fleet totals with the rates written in
  place; without statistics yet it uses a placeholder whose energies are zero. It prints
  the total as the session cost, and the three amounts again when the total is positive.
\<close>

record StatsGridCosts =
  solarCostJMD :: jsnum
  gridCostJMD :: jsnum
  totalCostJMD :: jsnum

definition StatsGrid_costs :: "SystemStats option \<Rightarrow> StatsGridCosts" where
  "StatsGrid_costs systemStats' =
     (let solar = (case systemStats' of None \<Rightarrow> Fin 0 | Some stats \<Rightarrow> total_solar_energy_kwh stats);
          grid = (case systemStats' of None \<Rightarrow> Fin 0 | Some stats \<Rightarrow> total_grid_energy_kwh stats);
          solarCostJMD' = jmul solar (Fin 10);
          gridCostJMD' = jmul grid (Fin 50)
      in \<lparr>solarCostJMD = solarCostJMD', gridCostJMD = gridCostJMD',
          totalCostJMD = jadd solarCostJMD' gridCostJMD'\<rparr>)"

record StatsGridShown =
  shown_session_cost :: jsnum
  shown_breakdown :: "(jsnum \<times> jsnum \<times> jsnum) option"

definition StatsGrid_shown :: "SystemStats option \<Rightarrow> StatsGridShown" where
  "StatsGrid_shown systemStats' =
     (let c = StatsGrid_costs systemStats'
      in \<lparr>shown_session_cost = toFixed 2 (totalCostJMD c),
          shown_breakdown =
            (if jgt (totalCostJMD c) (Fin 0) then
               Some (toFixed 2 (solarCostJMD c), toFixed 2 (gridCostJMD c),
                     toFixed 2 (totalCostJMD c))
             else None)\<rparr>)"


section \<open>The demo feed: \<open>MockFirebaseDB.generateMockData\<close>\<close>

text \<open>
  The demo feed draws from \<open>Math.random()\<close>. Each call is a parameter of the model,
  a double that the runtime takes from \<open>[0, 1)\<close>; the draws of one call of
  \<open>generateTelemetry\<close> are collected in a record, in the order of the calls.
\<close>

record Scenario =
  status :: string
  voltageRange :: "jsnum \<times> jsnum"
  currentRange :: "jsnum \<times> jsnum"
  energySource :: "string list"
  sessionId :: "string option"

record TelemetryDraws =
  r_scenario :: jsnum
  r_voltage :: jsnum
  r_current :: jsnum
  r_source :: jsnum
  r_sessionTime :: jsnum
  r_temperature :: jsnum
  r_unit :: jsnum

definition valid_draw :: "jsnum \<Rightarrow> bool" where
  "valid_draw r = (case r of Fin x \<Rightarrow> 0 \<le> x \<and> x < 1 \<and> fl x = Fin x | _ \<Rightarrow> False)"

definition valid_draws :: "TelemetryDraws \<Rightarrow> bool" where
  "valid_draws d =
     (valid_draw (r_scenario d) \<and> valid_draw (r_voltage d) \<and> valid_draw (r_current d) \<and>
      valid_draw (r_source d) \<and> valid_draw (r_sessionTime d) \<and>
      valid_draw (r_temperature d) \<and> valid_draw (r_unit d))"

text \<open>
  The three scenarios. The two session ids are made when the array is built, one draw
  each: \<open>sess_\<close> and a number from 1000 to 9999.
\<close>

definition mock_sessionId :: "jsnum \<Rightarrow> string" where
  "mock_sessionId r =
     ''sess_'' @ jsnum_toString (jadd (Math_floor (jmul r (Fin 9000))) (Fin 1000))"

definition scenarios :: "jsnum \<Rightarrow> jsnum \<Rightarrow> Scenario list" where
  "scenarios r_charging r_preparing =
     [\<lparr>status = ''charging'', voltageRange = (Fin 220, Fin 240),
       currentRange = (Fin 15, Fin 32),
       energySource = [''solar'', ''grid'', ''solar''],
       sessionId = Some (mock_sessionId r_charging)\<rparr>,
      \<lparr>status = ''available'', voltageRange = (Fin 220, Fin 240),
       currentRange = (Fin 0, Fin 0),
       energySource = [''none''],
       sessionId = None\<rparr>,
      \<lparr>status = ''preparing'', voltageRange = (Fin 220, Fin 240),
       currentRange = (Fin 0, Fin 5),
       energySource = [''solar''],
       sessionId = Some (mock_sessionId r_preparing)\<rparr>]"

text \<open>
  The two energy fields of a record, from the chosen source, the session time in hours
  and the power in kW (lines 82 to 91 of the source): the product and the product times
  0.1 for \<open>solar\<close>, the product times 0.2 and times 0.8 for \<open>grid\<close>, nothing
  otherwise.
\<close>

definition sessionEnergy :: "string \<Rightarrow> jsnum \<Rightarrow> jsnum \<Rightarrow> jsnum \<times> jsnum" where
  "sessionEnergy source sessionTime energyRate =
     (if source = ''solar'' then
        (jmul sessionTime energyRate, jmul (jmul sessionTime energyRate) (literal (1 / 10)))
      else if source = ''grid'' then
        (jmul (jmul sessionTime energyRate) (literal (2 / 10)),
         jmul (jmul sessionTime energyRate) (literal (8 / 10)))
      else (Fin 0, Fin 0))"

text \<open>
  The values a call computes before it rounds them: voltage, current and power from the
  chosen scenario and the draws, the session time, and the power in kW.
\<close>

definition drawn_voltage :: "Scenario \<Rightarrow> TelemetryDraws \<Rightarrow> jsnum" where
  "drawn_voltage sc d =
     jadd (jmul (r_voltage d) (jsub (snd (voltageRange sc)) (fst (voltageRange sc))))
          (fst (voltageRange sc))"

definition drawn_current :: "Scenario \<Rightarrow> TelemetryDraws \<Rightarrow> jsnum" where
  "drawn_current sc d =
     jadd (jmul (r_current d) (jsub (snd (currentRange sc)) (fst (currentRange sc))))
          (fst (currentRange sc))"

definition drawn_power :: "Scenario \<Rightarrow> TelemetryDraws \<Rightarrow> jsnum" where
  "drawn_power sc d = jmul (drawn_voltage sc d) (drawn_current sc d)"

definition drawn_sessionTime :: "TelemetryDraws \<Rightarrow> jsnum" where
  "drawn_sessionTime d = jadd (jmul (r_sessionTime d) (literal (24 / 10))) (literal (1 / 10))"

definition drawn_energyRate :: "Scenario \<Rightarrow> TelemetryDraws \<Rightarrow> jsnum" where
  "drawn_energyRate sc d = jdiv (drawn_power sc d) (Fin 1000)"

text \<open>\<open>Math.round(x * 10 ^ k) / 10 ^ k\<close>, the rounding the demo feed applies.\<close>

definition round_to :: "nat \<Rightarrow> jsnum \<Rightarrow> jsnum" where
  "round_to k x = jdiv (Math_round (jmul x (Fin (10 ^ k)))) (Fin (10 ^ k))"

text \<open>
  \<open>generateTelemetry\<close>. An index outside \<open>scenarios\<close> gives \<open>undefined\<close>, and
  reading its \<open>voltageRange\<close> throws: the result is \<open>None\<close>. An index outside
  the scenario's \<open>energySource\<close> cannot be the floor of a draw from \<open>[0, 1)\<close>
  times the length; the model gives \<open>None\<close> there too.
\<close>

definition generateTelemetry :: "Scenario list \<Rightarrow> string \<Rightarrow> TelemetryDraws \<Rightarrow> TelemetryData option" where
  "generateTelemetry scs now d =
     (case at_number scs (Math_floor (jmul (r_scenario d) (Fin (real (length scs))))) of
        None \<Rightarrow> None
      | Some scenario \<Rightarrow>
          (let voltage = drawn_voltage scenario d;
               current = drawn_current scenario d;
               power = jmul voltage current
           in case at_number (energySource scenario)
                     (Math_floor (jmul (r_source d)
                        (Fin (real (length (energySource scenario)))))) of
                None \<Rightarrow> None
              | Some source \<Rightarrow>
                  (let sessionTime = drawn_sessionTime d;
                       energyRate = jdiv power (Fin 1000);
                       solarEnergy = fst (sessionEnergy source sessionTime energyRate);
                       gridEnergy = snd (sessionEnergy source sessionTime energyRate)
                   in Some
                        \<lparr>timestamp = now,
                         session_id = sessionId scenario,
                         voltage_v = round_to 2 voltage,
                         current_a = round_to 2 current,
                         power_w = round_to 2 power,
                         session_energy_kwh_solar = round_to 4 solarEnergy,
                         session_energy_kwh_grid = round_to 4 gridEnergy,
                         session_total_energy_kwh = round_to 4 (jadd solarEnergy gridEnergy),
                         energy_source = source,
                         temperature_c =
                           round_to 1 (jadd (jmul (r_temperature d) (Fin 25)) (Fin 20)),
                         status = Scenario.status scenario,
                         unit_id = Some (''evse_unit_'' @
                                      jsnum_toString
                                        (jadd (Math_floor (jmul (r_unit d) (Fin 3)))
                                              (Fin 1)))\<rparr>)))"

text \<open>
  The loop over \<open>i = 1, 2, 3\<close>: one record per unit, stored under
  \<open>evse_unit_i\<close>. The object \<open>units\<close> keeps its keys in insertion order.
\<close>

definition mock_unitId :: "nat \<Rightarrow> string" where
  "mock_unitId i = ''evse_unit_'' @ string_of_nat i"

definition mock_unit :: "string \<Rightarrow> nat \<Rightarrow> TelemetryData \<Rightarrow> EVSEUnit" where
  "mock_unit now i t =
     \<lparr>EVSEUnit.unit_id = mock_unitId i, telemetry = t, EVSEUnit.last_updated = now\<rparr>"

fun generate_units ::
    "Scenario list \<Rightarrow> string \<Rightarrow> nat \<Rightarrow> TelemetryDraws list \<Rightarrow> UnitMap \<Rightarrow> UnitMap option" where
  "generate_units scs now i [] units = Some units"
| "generate_units scs now i (d # ds) units =
     (case generateTelemetry scs now d of
        None \<Rightarrow> None
      | Some t \<Rightarrow>
          generate_units scs now (i + 1) ds (Map_set (mock_unitId i) (mock_unit now i t) units))"

text \<open>
  The totals and counters of the \<open>forEach\<close> over the units. Its test
  \<open>if (unit.telemetry)\<close> holds for every unit, since the loop above stored a record
  in each.
\<close>

record mock_acc =
  totalPower :: jsnum
  totalSolar :: jsnum
  totalGrid :: jsnum
  activeSessions :: nat
  chargingUnits :: nat
  availableUnits :: nat

definition mock_acc_init :: mock_acc where
  "mock_acc_init =
     \<lparr>totalPower = Fin 0, totalSolar = Fin 0, totalGrid = Fin 0,
      activeSessions = 0, chargingUnits = 0, availableUnits = 0\<rparr>"

definition mock_step :: "mock_acc \<Rightarrow> EVSEUnit \<Rightarrow> mock_acc" where
  "mock_step acc unit =
     (let t = telemetry unit
      in \<lparr>totalPower = jadd (totalPower acc) (power_w t),
          totalSolar = jadd (totalSolar acc) (session_energy_kwh_solar t),
          totalGrid = jadd (totalGrid acc) (session_energy_kwh_grid t),
          activeSessions = activeSessions acc + (if truthy (session_id t) then 1 else 0),
          chargingUnits = chargingUnits acc + (if TelemetryData.status t = ''charging'' then 1 else 0),
          availableUnits = availableUnits acc + (if TelemetryData.status t = ''available'' then 1 else 0)\<rparr>)"

definition mock_systemStats :: "string \<Rightarrow> jsnum \<Rightarrow> UnitMap \<Rightarrow> SystemStats" where
  "mock_systemStats now r_avg units =
     (let acc = foldl mock_step mock_acc_init (Map_values units);
          totalEnergy = jadd (totalSolar acc) (totalGrid acc);
          solarPct = solarPercentage (totalSolar acc) (totalGrid acc)
      in \<lparr>total_power_w = Math_round (totalPower acc),
          total_solar_energy_kwh = round_to 4 (totalSolar acc),
          total_grid_energy_kwh = round_to 4 (totalGrid acc),
          total_energy_kwh = round_to 4 totalEnergy,
          avg_temperature_c = round_to 1 (jadd (jmul r_avg (Fin 10)) (Fin 25)),
          solar_percentage = round_to 1 solarPct,
          active_sessions = activeSessions acc,
          available_units = availableUnits acc,
          charging_units = chargingUnits acc,
          faulted_units = 0,
          SystemStats.last_updated = now\<rparr>)"

record MockDraws =
  r_sess_charging :: jsnum
  r_sess_preparing :: jsnum
  unit1_draws :: TelemetryDraws
  unit2_draws :: TelemetryDraws
  unit3_draws :: TelemetryDraws
  r_avg_temperature :: jsnum

definition valid_mock_draws :: "MockDraws \<Rightarrow> bool" where
  "valid_mock_draws m =
     (valid_draw (r_sess_charging m) \<and> valid_draw (r_sess_preparing m) \<and>
      valid_draws (unit1_draws m) \<and> valid_draws (unit2_draws m) \<and>
      valid_draws (unit3_draws m) \<and> valid_draw (r_avg_temperature m))"

record MockData =
  latest_telemetry :: TelemetryData
  system_stats :: SystemStats
  evse_units :: UnitMap

text \<open>
  \<open>generateMockData\<close>. The loop runs three times, each run with its own draws;
  the first unit's record is the \<open>latest_telemetry\<close>.
\<close>

definition generateMockData :: "string \<Rightarrow> MockDraws \<Rightarrow> MockData option" where
  "generateMockData now m =
     (case generate_units (scenarios (r_sess_charging m) (r_sess_preparing m)) now 1
             [unit1_draws m, unit2_draws m, unit3_draws m] [] of
        None \<Rightarrow> None
      | Some units \<Rightarrow>
          (case units of
             [] \<Rightarrow> None
           | first # rest \<Rightarrow>
               Some \<lparr>latest_telemetry = telemetry (snd first),
                     system_stats = mock_systemStats now (r_avg_temperature m) units,
                     evse_units = units\<rparr>))"

text \<open>The two shares that \<open>EnergySourceIndicator\<close> shows for one record.\<close>

definition EnergySourceIndicator_solarPercentage :: "TelemetryData \<Rightarrow> jsnum" where
  "EnergySourceIndicator_solarPercentage t =
     solarPercentage (session_energy_kwh_solar t) (session_energy_kwh_grid t)"

definition EnergySourceIndicator_gridPercentage :: "TelemetryData \<Rightarrow> jsnum" where
  "EnergySourceIndicator_gridPercentage t =
     gridPercentage (session_energy_kwh_solar t) (session_energy_kwh_grid t)"


section \<open>The consistency of a telemetry record\<close>

definition lifecycle_states :: "string set" where
  "lifecycle_states = {''available'', ''preparing'', ''charging'', ''finishing'', ''faulted''}"

definition telemetry_consistent :: "TelemetryData \<Rightarrow> bool" where
  "telemetry_consistent t =
     (TelemetryData.status t \<in> lifecycle_states \<and>
      ((TelemetryData.status t = ''available'') = (session_id t = None)))"


section \<open>The power curve of the unit simulator\<close>

datatype phase = Available | Preparing | Charging | Finishing | Faulted

text \<open>
  Modelled from the spec: the power curve of the unit simulator (the simulator,
  \<open>mock_publisher.py\<close>, is not among the sources). Section 4.2 gives it as a function
  of phase, elapsed fraction and nominal power: zero outside charging; the nominal power
  below 0.8; from 0.8 to 1.0 the line \<open>nominal * (1 - 4 * (fraction - 0.8))\<close>, not
  lower than \<open>0.2 * nominal\<close>; zero above 1.0.
\<close>

definition power_curve :: "phase \<Rightarrow> real \<Rightarrow> real \<Rightarrow> real" where
  "power_curve ph elapsed_fraction nominal_power =
     (if ph \<noteq> Charging then 0
      else if elapsed_fraction < 8 / 10 then nominal_power
      else if elapsed_fraction \<le> 1 then
        max (2 / 10 * nominal_power) (nominal_power * (1 - 4 * (elapsed_fraction - 8 / 10)))
      else 0)"


section \<open>Sample inputs\<close>

text \<open>
  A telemetry record with a given session id, status, power, energy fields and
  temperature, and a unit stored under a given key; they are the concrete inputs of the
  examples below. Their numbers are doubles.
\<close>

definition sample_record ::
    "string option \<Rightarrow> string \<Rightarrow> jsnum \<Rightarrow> jsnum \<Rightarrow> jsnum \<Rightarrow> jsnum \<Rightarrow> TelemetryData" where
  "sample_record sid st p solar grid temp =
     \<lparr>timestamp = ''2025-06-03T12:00:00.000Z'', session_id = sid, voltage_v = Fin 230,
      current_a = Fin 16, power_w = p, session_energy_kwh_solar = solar,
      session_energy_kwh_grid = grid, session_total_energy_kwh = jadd solar grid,
      energy_source = ''solar'', temperature_c = temp, status = st, unit_id = None\<rparr>"

definition sample_unit :: "string \<Rightarrow> TelemetryData \<Rightarrow> string \<times> EVSEUnit" where
  "sample_unit k t =
     (k, \<lparr>EVSEUnit.unit_id = k, telemetry = t,
          EVSEUnit.last_updated = ''2025-06-03T12:00:00.000Z''\<rparr>)"

definition sample_draws :: "real \<Rightarrow> real \<Rightarrow> TelemetryDraws" where
  "sample_draws rs rsrc =
     \<lparr>r_scenario = Fin rs, r_voltage = Fin (1 / 2), r_current = Fin (1 / 2),
      r_source = Fin rsrc, r_sessionTime = Fin (1 / 4), r_temperature = Fin (1 / 4),
      r_unit = Fin (1 / 2)\<rparr>"

definition sample_mock_draws :: MockDraws where
  "sample_mock_draws =
     \<lparr>r_sess_charging = Fin (1 / 2), r_sess_preparing = Fin (1 / 4),
      unit1_draws = sample_draws 0 (1 / 2), unit2_draws = sample_draws (1 / 2) 0,
      unit3_draws = sample_draws (7 / 8) 0, r_avg_temperature = Fin (1 / 2)\<rparr>"

definition sample_fleet :: UnitMap where
  "sample_fleet =
     [sample_unit ''evse_unit_01''
        (sample_record (Some ''sess_1234'') ''charging'' (Fin (13201 / 4)) (Fin 1) (Fin 2) (Fin 20)),
      sample_unit ''evse_unit_02''
        (sample_record None ''available'' (Fin 0) (Fin (1 / 2)) (Fin 0) (Fin (81 / 4)))]"

text \<open>The records of \<open>sample_fleet\<close> under two other keys.\<close>

definition rekeyed_fleet :: UnitMap where
  "rekeyed_fleet =
     [sample_unit ''a''
        (sample_record (Some ''sess_1234'') ''charging'' (Fin (13201 / 4)) (Fin 1) (Fin 2) (Fin 20)),
      sample_unit ''b''
        (sample_record None ''available'' (Fin 0) (Fin (1 / 2)) (Fin 0) (Fin (81 / 4)))]"

definition unkeyed_record :: "string \<Rightarrow> TelemetryData" where
  "unkeyed_record sid = sample_record (Some sid) ''charging'' (Fin 3680) (Fin 1) (Fin 2) (Fin 30)"

text \<open>
  Draws for which the three rounded energy fields of a record do not add up, the
  scenario they select and the record they give.
\<close>

definition mismatch_draws :: TelemetryDraws where
  "mismatch_draws =
     \<lparr>r_scenario = Fin (7 / 8), r_voltage = Fin 0, r_current = Fin (1335 / 2 ^ 20),
      r_source = Fin 0, r_sessionTime = Fin 0, r_temperature = Fin (1 / 4),
      r_unit = Fin (1 / 2)\<rparr>"

definition mismatch_scenario :: Scenario where
  "mismatch_scenario =
     \<lparr>status = ''preparing'', voltageRange = (Fin 220, Fin 240),
      currentRange = (Fin 0, Fin 5),
      energySource = [''solar''], sessionId = Some ''sess_3250''\<rparr>"

definition mismatch_record :: TelemetryData where
  "mismatch_record =
     \<lparr>timestamp = ''now'', session_id = Some ''sess_3250'', voltage_v = Fin 220,
      current_a = literal (1 / 100), power_w = literal (14 / 10),
      session_energy_kwh_solar = literal (1 / 10000), session_energy_kwh_grid = Fin 0,
      session_total_energy_kwh = literal (2 / 10000), energy_source = ''solar'',
      temperature_c = literal (263 / 10), status = ''preparing'',
      unit_id = Some ''evse_unit_2''\<rparr>"


section \<open>Auxiliary facts\<close>

subsection \<open>Rounding to the nearest double\<close>

lemma pw_pos: "(0::real) < 2 powi k"
  by simp

lemma pw_mono: "k \<le> l \<Longrightarrow> (2::real) powi k \<le> 2 powi l"
  by (rule power_int_increasing) simp_all

lemma pw_add: "(2::real) powi (m + n) = 2 powi m * 2 powi n"
  by (rule power_int_add) simp

lemma pw_less_imp:
  assumes "(2::real) powi k < 2 powi l"
  shows "k < l"
proof (rule ccontr)
  assume "\<not> k < l"
  then have "l \<le> k" by simp
  then have "(2::real) powi l \<le> 2 powi k" by (rule pw_mono)
  with assms show False by simp
qed

lemma exponent_bounds:
  assumes "0 < a"
  shows "2 powi (exponent a) \<le> a \<and> a < 2 powi (exponent a + 1)"
proof (cases "1 \<le> a")
  case True
  define n where "n = \<lfloor>a\<rfloor>"
  have n: "0 < n" using True unfolding n_def by simp
  have e: "exponent a = bitlen n - 1" using True by (simp add: exponent_def n_def)
  have b: "1 \<le> bitlen n" using n by (simp add: bitlen_alt_def)
  from bitlen_bounds [OF n] have lo: "2 ^ nat (bitlen n - 1) \<le> n" and hi: "n < 2 ^ nat (bitlen n)"
    by simp_all
  have "(2::real) powi (bitlen n - 1) = 2 ^ nat (bitlen n - 1)"
    using b by (simp add: power_int_def)
  also have "\<dots> = real_of_int (2 ^ nat (bitlen n - 1))" by simp
  also have "\<dots> \<le> real_of_int n" using lo by (simp only: of_int_le_iff)
  also have "\<dots> \<le> a" unfolding n_def by simp
  finally have 1: "2 powi (exponent a) \<le> a" unfolding e .
  have "n + 1 \<le> 2 ^ nat (bitlen n)" using hi by simp
  then have "real_of_int (n + 1) \<le> real_of_int (2 ^ nat (bitlen n))"
    by (simp only: of_int_le_iff)
  moreover have "a < real_of_int (n + 1)" unfolding n_def by linarith
  moreover have "(2::real) powi (bitlen n) = 2 ^ nat (bitlen n)"
    using b by (simp add: power_int_def)
  ultimately have 2: "a < 2 powi (exponent a + 1)" unfolding e by simp
  show ?thesis using 1 2 by simp
next
  case False
  then have a1: "a < 1" by simp
  define c where "c = \<lceil>1 / a\<rceil>"
  have inv: "1 < 1 / a" using assms a1 by simp
  then have c2: "2 \<le> c" unfolding c_def by linarith
  define n where "n = c - 1"
  have n: "0 < n" using c2 by (simp add: n_def)
  have e: "exponent a = - bitlen n" using False by (simp add: exponent_def n_def c_def)
  have b: "1 \<le> bitlen n" using n by (simp add: bitlen_alt_def)
  from bitlen_bounds [OF n] have lo: "2 ^ nat (bitlen n - 1) \<le> n" and hi: "n < 2 ^ nat (bitlen n)"
    by simp_all
  have up: "1 / a \<le> real_of_int (n + 1)" unfolding n_def c_def by simp
  have dn: "real_of_int n < 1 / a" unfolding n_def c_def by linarith
  have "real_of_int (n + 1) \<le> real_of_int (2 ^ nat (bitlen n))"
    using hi by (simp only: of_int_le_iff)
  then have "1 / a \<le> 2 ^ nat (bitlen n)" using up by simp
  then have "1 \<le> 2 ^ nat (bitlen n) * a" using assms by (simp add: pos_divide_le_eq)
  then have "1 / 2 ^ nat (bitlen n) \<le> a" by (simp add: pos_divide_le_eq mult.commute)
  moreover have "(2::real) powi (- bitlen n) = 1 / 2 ^ nat (bitlen n)"
    using b by (simp add: power_int_def field_simps)
  ultimately have 1: "2 powi (exponent a) \<le> a" unfolding e by simp
  have "real_of_int (2 ^ nat (bitlen n - 1)) \<le> real_of_int n"
    using lo by (simp only: of_int_le_iff)
  then have "(2::real) ^ nat (bitlen n - 1) \<le> real_of_int n" by simp
  then have "2 ^ nat (bitlen n - 1) < 1 / a" using dn by linarith
  then have "2 ^ nat (bitlen n - 1) * a < 1" using assms by (simp add: pos_less_divide_eq)
  then have "a < 1 / 2 ^ nat (bitlen n - 1)" by (simp add: pos_less_divide_eq mult.commute)
  moreover have "(2::real) powi (- bitlen n + 1) = 1 / 2 ^ nat (bitlen n - 1)"
  proof -
    have "- bitlen n + 1 = - (bitlen n - 1)" by simp
    moreover have "(2::real) powi (- (bitlen n - 1)) = inverse (2 powi (bitlen n - 1))"
      by (rule power_int_minus)
    moreover have "(2::real) powi (bitlen n - 1) = 2 ^ nat (bitlen n - 1)"
      using b by (simp add: power_int_def)
    ultimately show ?thesis by (simp add: field_simps)
  qed
  ultimately have 2: "a < 2 powi (exponent a + 1)" unfolding e by simp
  show ?thesis using 1 2 by simp
qed

lemma exponent_unique:
  assumes "0 < a" and "2 powi k \<le> a" and "a < 2 powi (k + 1)"
  shows "exponent a = k"
proof -
  from exponent_bounds [OF assms(1)] have
    lo: "2 powi (exponent a) \<le> a" and hi: "a < 2 powi (exponent a + 1)" by simp_all
  have "(2::real) powi k < 2 powi (exponent a + 1)" using assms(2) hi by linarith
  then have 1: "k < exponent a + 1" by (rule pw_less_imp)
  have "(2::real) powi (exponent a) < 2 powi (k + 1)" using lo assms(3) by linarith
  then have 2: "exponent a < k + 1" by (rule pw_less_imp)
  show ?thesis using 1 2 by simp
qed

lemma exponent_mono:
  assumes "0 < a" and "a \<le> b"
  shows "exponent a \<le> exponent b"
proof -
  have b: "0 < b" using assms by simp
  from exponent_bounds [OF assms(1)] have lo: "2 powi (exponent a) \<le> a" by simp
  from exponent_bounds [OF b] have hi: "b < 2 powi (exponent b + 1)" by simp
  have "(2::real) powi (exponent a) < 2 powi (exponent b + 1)" using lo hi assms(2) by linarith
  then have "exponent a < exponent b + 1" by (rule pw_less_imp)
  then show ?thesis by simp
qed

lemma round_even_of_int: "round_even (of_int n) = n"
  by (simp add: round_even_def)

lemma round_even_floor: "\<lfloor>y\<rfloor> \<le> round_even y \<and> round_even y \<le> \<lfloor>y\<rfloor> + 1"
  by (simp add: round_even_def Let_def)

lemma round_even_le:
  assumes "y \<le> of_int N"
  shows "round_even y \<le> N"
proof (cases "y = of_int N")
  case True
  then show ?thesis by (simp add: round_even_of_int)
next
  case False
  then have "y < of_int N" using assms by simp
  then have "\<lfloor>y\<rfloor> < N" by (simp only: floor_less_iff)
  then show ?thesis using round_even_floor [of y] by linarith
qed

lemma round_even_ge:
  assumes "of_int N \<le> y"
  shows "N \<le> round_even y"
proof -
  have "N \<le> \<lfloor>y\<rfloor>" using assms by (simp only: le_floor_iff)
  then show ?thesis using round_even_floor [of y] by linarith
qed

lemma round_even_mono:
  assumes "x \<le> y"
  shows "round_even x \<le> round_even y"
proof (cases "\<lfloor>x\<rfloor> = \<lfloor>y\<rfloor>")
  case True
  then show ?thesis using assms by (auto simp: round_even_def Let_def)
next
  case False
  moreover have "\<lfloor>x\<rfloor> \<le> \<lfloor>y\<rfloor>" using assms by (rule floor_mono)
  ultimately have "\<lfloor>x\<rfloor> + 1 \<le> \<lfloor>y\<rfloor>" by simp
  then show ?thesis using round_even_floor [of x] round_even_floor [of y] by linarith
qed

lemma ulp_pos: "0 < ulp a"
  by (simp add: ulp_def)

lemma bexp_ge: "- 1022 \<le> bexp a"
  by (simp add: bexp_def)

lemma bexp_mono: "0 < a \<Longrightarrow> a \<le> b \<Longrightarrow> bexp a \<le> bexp b"
  using exponent_mono [of a b] by (simp add: bexp_def)

lemma pw_split_hi: "(2::real) powi (e + 1) = 2 ^ 53 * 2 powi (e - 52)"
proof -
  have "e + 1 = 53 + (e - 52)" by simp
  then have "(2::real) powi (e + 1) = 2 powi (53 + (e - 52))" by (rule arg_cong)
  also have "\<dots> = 2 powi 53 * 2 powi (e - 52)" by (rule pw_add)
  finally show ?thesis by simp
qed

lemma pw_split_lo: "(2::real) powi e = 2 ^ 52 * 2 powi (e - 52)"
proof -
  have "e = 52 + (e - 52)" by simp
  then have "(2::real) powi e = 2 powi (52 + (e - 52))" by (rule arg_cong)
  also have "\<dots> = 2 powi 52 * 2 powi (e - 52)" by (rule pw_add)
  finally show ?thesis by simp
qed

lemma nearest_zero: "nearest 0 = 0"
  by (simp add: nearest_def round_even_def)

lemma nearest_nonneg:
  assumes "0 \<le> a"
  shows "0 \<le> nearest a"
proof -
  have "0 \<le> a / ulp a" using assms ulp_pos [of a] by simp
  then have "real_of_int 0 \<le> a / ulp a" by simp
  then have "0 \<le> round_even (a / ulp a)" by (rule round_even_ge)
  then show ?thesis using ulp_pos [of a] by (simp add: nearest_def)
qed

lemma mant_le:
  assumes "0 < a"
  shows "round_even (a / ulp a) \<le> 2 ^ 53"
proof -
  let ?q = "ulp a"
  have q: "0 < ?q" by (rule ulp_pos)
  have "a < 2 powi (exponent a + 1)" using exponent_bounds [OF assms] by simp
  also have "\<dots> \<le> 2 powi (bexp a + 1)" by (rule pw_mono) (simp add: bexp_def)
  also have "\<dots> = 2 ^ 53 * ?q" unfolding ulp_def by (rule pw_split_hi)
  finally have "a / ?q \<le> 2 ^ 53" using q by (simp add: pos_divide_le_eq)
  then have "a / ?q \<le> real_of_int (2 ^ 53)" by simp
  then show ?thesis by (rule round_even_le)
qed

lemma nearest_upper:
  assumes "0 < a"
  shows "nearest a \<le> 2 powi (bexp a + 1)"
proof -
  let ?q = "ulp a"
  have q: "0 < ?q" by (rule ulp_pos)
  have "round_even (a / ?q) \<le> 2 ^ 53" using assms by (rule mant_le)
  then have "real_of_int (round_even (a / ?q)) \<le> real_of_int (2 ^ 53)"
    by (simp only: of_int_le_iff)
  then have "real_of_int (round_even (a / ?q)) * ?q \<le> real_of_int (2 ^ 53) * ?q"
    using q by (simp only: mult_le_cancel_right_pos)
  then show ?thesis unfolding nearest_def pw_split_hi [of "bexp a"] ulp_def by simp
qed

lemma nearest_lower:
  assumes "0 < a" and "- 1022 \<le> exponent a"
  shows "2 powi (bexp a) \<le> nearest a"
proof -
  let ?q = "ulp a"
  have q: "0 < ?q" by (rule ulp_pos)
  have b: "bexp a = exponent a" using assms(2) by (simp add: bexp_def)
  have "2 ^ 52 * ?q = 2 powi (bexp a)" unfolding ulp_def by (rule pw_split_lo [symmetric])
  also have "\<dots> \<le> a" unfolding b using exponent_bounds [OF assms(1)] by simp
  finally have "2 ^ 52 \<le> a / ?q" using q by (simp add: pos_le_divide_eq)
  then have "real_of_int (2 ^ 52) \<le> a / ?q" by simp
  then have "2 ^ 52 \<le> round_even (a / ?q)" by (rule round_even_ge)
  then have "real_of_int (2 ^ 52) \<le> real_of_int (round_even (a / ?q))"
    by (simp only: of_int_le_iff)
  then have "real_of_int (2 ^ 52) * ?q \<le> real_of_int (round_even (a / ?q)) * ?q"
    using q by (simp only: mult_le_cancel_right_pos)
  then show ?thesis unfolding nearest_def pw_split_lo [of "bexp a"] ulp_def by simp
qed

lemma nearest_mono:
  assumes "0 \<le> a" and "a \<le> b"
  shows "nearest a \<le> nearest b"
proof (cases "a = 0")
  case True
  then show ?thesis using nearest_nonneg [of b] assms by (simp add: nearest_zero)
next
  case False
  then have a: "0 < a" and b: "0 < b" using assms by simp_all
  have le: "bexp a \<le> bexp b" using a assms(2) by (rule bexp_mono)
  show ?thesis
  proof (cases "bexp a = bexp b")
    case True
    then have q: "ulp a = ulp b" by (simp add: ulp_def)
    have "a / ulp b \<le> b / ulp b" using assms(2) ulp_pos [of b] by (simp add: divide_right_mono)
    then have "round_even (a / ulp b) \<le> round_even (b / ulp b)" by (rule round_even_mono)
    then have "real_of_int (round_even (a / ulp b)) \<le> real_of_int (round_even (b / ulp b))"
      by (simp only: of_int_le_iff)
    then have "real_of_int (round_even (a / ulp b)) * ulp b
                 \<le> real_of_int (round_even (b / ulp b)) * ulp b"
      using ulp_pos [of b] by (simp only: mult_le_cancel_right_pos)
    then show ?thesis unfolding nearest_def q .
  next
    case False
    then have lt: "bexp a + 1 \<le> bexp b" using le by simp
    have "- 1022 \<le> bexp a" by (rule bexp_ge)
    then have "- 1022 < bexp b" using lt by simp
    then have eb: "- 1022 \<le> exponent b" by (simp add: bexp_def)
    have "nearest a \<le> 2 powi (bexp a + 1)" using a by (rule nearest_upper)
    also have "\<dots> \<le> 2 powi (bexp b)" using lt by (rule pw_mono)
    also have "\<dots> \<le> nearest b" using b eb by (rule nearest_lower)
    finally show ?thesis .
  qed
qed

lemma nearest_same_ulp:
  assumes "ulp (real_of_int m * q) = q" and "0 < q"
  shows "nearest (real_of_int m * q) = real_of_int m * q"
proof -
  have "real_of_int m * q / q = real_of_int m" using assms(2) by simp
  then show ?thesis unfolding nearest_def assms(1) by (simp add: round_even_of_int)
qed

lemma nearest_idem:
  assumes "0 \<le> a"
  shows "nearest (nearest a) = nearest a"
proof (cases "a = 0")
  case True
  then show ?thesis by (simp add: nearest_zero)
next
  case False
  then have a: "0 < a" using assms by simp
  define q where "q = ulp a"
  define m where "m = round_even (a / q)"
  define v where "v = real_of_int m * q"
  have q: "0 < q" unfolding q_def by (rule ulp_pos)
  have v: "nearest a = v" by (simp add: nearest_def v_def m_def q_def)
  have qe: "q = 2 powi (bexp a - 52)" unfolding q_def by (rule ulp_def)
  have m53: "m \<le> 2 ^ 53" unfolding m_def q_def using a by (rule mant_le)
  have "0 \<le> v" using nearest_nonneg [OF assms] v by simp
  then have m0: "0 \<le> m" unfolding v_def using q by (simp add: zero_le_mult_iff)
  have hi: "2 powi (bexp a + 1) = 2 ^ 53 * q" unfolding qe by (rule pw_split_hi)
  have lo: "2 powi (bexp a) = 2 ^ 52 * q" unfolding qe by (rule pw_split_lo)
  show ?thesis
  proof (cases "m = 0")
    case True
    then show ?thesis unfolding v by (simp add: v_def nearest_zero)
  next
    case False
    then have mpos: "0 < m" using m0 by simp
    then have vpos: "0 < v" unfolding v_def using q by simp
    consider (top) "m = 2 ^ 53" | (mid) "2 ^ 52 \<le> m" "m < 2 ^ 53" | (sub) "m < 2 ^ 52"
      using m53 by linarith
    then show ?thesis
    proof cases
      case top
      have veq: "v = 2 powi (bexp a + 1)" unfolding hi v_def top by simp
      have "exponent v = bexp a + 1"
      proof (rule exponent_unique [OF vpos])
        show "2 powi (bexp a + 1) \<le> v" using veq by simp
        have "(2::real) powi (bexp a + 1) < 2 powi (bexp a + 1 + 1)"
          by (rule power_int_strict_increasing) simp_all
        then show "v < 2 powi (bexp a + 1 + 1)" using veq by simp
      qed
      then have bv: "bexp v = bexp a + 1" using bexp_ge [of a] by (simp add: bexp_def)
      have uv: "ulp v = 2 * q"
      proof -
        have "bexp a + 1 - 52 = 1 + (bexp a - 52)" by simp
        then have "(2::real) powi (bexp a + 1 - 52) = 2 powi (1 + (bexp a - 52))"
          by (rule arg_cong)
        also have "\<dots> = 2 powi 1 * 2 powi (bexp a - 52)" by (rule pw_add)
        finally show ?thesis unfolding ulp_def bv qe by simp
      qed
      have "v = real_of_int (2 ^ 52) * (2 * q)" unfolding v_def top by simp
      moreover have "nearest (real_of_int (2 ^ 52) * (2 * q)) = real_of_int (2 ^ 52) * (2 * q)"
      proof (rule nearest_same_ulp)
        show "ulp (real_of_int (2 ^ 52) * (2 * q)) = 2 * q"
          using uv unfolding v_def top by simp
        show "0 < 2 * q" using q by simp
      qed
      ultimately show ?thesis unfolding v by simp
    next
      case mid
      have "real_of_int (2 ^ 52) \<le> real_of_int m" using mid(1) by (simp only: of_int_le_iff)
      then have "real_of_int (2 ^ 52) * q \<le> real_of_int m * q"
        using q by (simp only: mult_le_cancel_right_pos)
      then have l: "2 powi (bexp a) \<le> v" unfolding lo v_def by simp
      have "real_of_int m < real_of_int (2 ^ 53)" using mid(2) by (simp only: of_int_less_iff)
      then have "real_of_int m * q < real_of_int (2 ^ 53) * q"
        using q by (simp only: mult_less_cancel_right_pos)
      then have h: "v < 2 powi (bexp a + 1)" unfolding hi v_def by simp
      have "exponent v = bexp a" using vpos l h by (rule exponent_unique)
      then have "bexp v = bexp a" using bexp_ge [of a] by (simp add: bexp_def)
      then have "ulp v = q" by (simp add: ulp_def qe)
      then show ?thesis unfolding v using q unfolding v_def by (rule nearest_same_ulp)
    next
      case sub
      have "real_of_int m < real_of_int (2 ^ 52)" using sub by (simp only: of_int_less_iff)
      then have "real_of_int m * q < real_of_int (2 ^ 52) * q"
        using q by (simp only: mult_less_cancel_right_pos)
      then have h: "v < 2 powi (bexp a)" unfolding lo v_def by simp
      have ba: "bexp a = - 1022"
      proof (rule ccontr)
        assume "bexp a \<noteq> - 1022"
        then have "- 1022 \<le> exponent a" by (simp add: bexp_def)
        then have "2 powi (bexp a) \<le> nearest a" using a by (intro nearest_lower)
        then show False using h v by simp
      qed
      have "2 powi (exponent v) \<le> v" using exponent_bounds [OF vpos] by simp
      then have "(2::real) powi (exponent v) < 2 powi (- 1022)" using h ba by simp
      then have "exponent v < - 1022" by (rule pw_less_imp)
      then have "bexp v = bexp a" unfolding ba by (simp add: bexp_def)
      then have "ulp v = q" by (simp add: ulp_def qe)
      then show ?thesis unfolding v using q unfolding v_def by (rule nearest_same_ulp)
    qed
  qed
qed

lemma fl_nonneg_cases:
  assumes "0 \<le> x"
  shows "(fl x = Fin (nearest x) \<and> nearest x < 2 powi 1024) \<or> (fl x = PInf \<and> 2 powi 1024 \<le> nearest x)"
  using assms by (simp add: fl_def)

lemma fl_nonneg_Fin:
  assumes "0 \<le> x" and "fl x = Fin v"
  shows "v = nearest x \<and> 0 \<le> v \<and> v < 2 powi 1024"
  using assms nearest_nonneg [OF assms(1)] by (auto simp: fl_def split: if_splits)

lemma fl_nonneg_mono:
  assumes "0 \<le> x" and "x \<le> y" and "fl y = Fin v"
  shows "\<exists>u. fl x = Fin u \<and> 0 \<le> u \<and> u \<le> v"
proof -
  have y: "0 \<le> y" using assms by simp
  from fl_nonneg_Fin [OF y assms(3)] have v: "v = nearest y" "v < 2 powi 1024" by simp_all
  have le: "nearest x \<le> nearest y" using assms(1,2) by (rule nearest_mono)
  then have "nearest x < 2 powi 1024" using v by simp
  then have "fl x = Fin (nearest x)" using assms(1) by (simp add: fl_def)
  then show ?thesis using le v(1) nearest_nonneg [OF assms(1)] by simp
qed

lemma fl_idem:
  assumes "0 \<le> x" and "fl x = Fin v"
  shows "fl v = Fin v"
proof -
  from fl_nonneg_Fin [OF assms] have v: "v = nearest x" "0 \<le> v" "v < 2 powi 1024" by simp_all
  have "nearest v = v" unfolding v(1) using assms(1) by (rule nearest_idem)
  then show ?thesis using v(2,3) by (simp add: fl_def)
qed

lemma fl_zero: "fl 0 = Fin 0"
  by (simp add: fl_def nearest_zero)

lemma double_below_one:
  assumes "fl x = Fin x" and "0 \<le> x" and "x < 1"
  shows "x \<le> 1 - 1 / 2 ^ 53"
proof (cases "x < 1 / 2")
  case True
  then show ?thesis by simp
next
  case False
  then have h: "1 / 2 \<le> x" by simp
  then have pos: "0 < x" by simp
  have "exponent x = - 1"
    by (rule exponent_unique [OF pos]) (use h assms(3) in simp_all)
  then have u: "ulp x = 1 / 2 ^ 53" by (simp add: ulp_def bexp_def)
  from fl_nonneg_Fin [OF assms(2,1)] have "x = nearest x" by simp
  then have x: "x = real_of_int (round_even (x * 2 ^ 53)) / 2 ^ 53"
    unfolding nearest_def u by simp
  define m where "m = round_even (x * 2 ^ 53)"
  have xm: "x = real_of_int m / 2 ^ 53" using x by (simp add: m_def)
  then have "real_of_int m / 2 ^ 53 < 1" using assms(3) by simp
  then have "real_of_int m < real_of_int (2 ^ 53)" by simp
  then have "m < 2 ^ 53" by (simp only: of_int_less_iff)
  then have "m \<le> 2 ^ 53 - 1" by simp
  then have "real_of_int m \<le> real_of_int (2 ^ 53 - 1)" by (simp only: of_int_le_iff)
  then have "real_of_int m / 2 ^ 53 \<le> real_of_int (2 ^ 53 - 1) / 2 ^ 53"
    by (simp add: divide_right_mono)
  then show ?thesis unfolding xm [symmetric] by (simp add: field_simps)
qed


subsection \<open>Evaluating the rounding on numerals\<close>

lemma bitlen_One: "bitlen 1 = 1"
  by (simp add: bitlen_alt_def)

lemma bitlen_Bit0: "bitlen (numeral (Num.Bit0 n)) = bitlen (numeral n) + 1"
proof -
  have "bitlen (numeral (Num.Bit0 n)) = bitlen (numeral (Num.Bit0 n) div 2) + 1"
    by (subst compute_bitlen) simp
  then show ?thesis by simp
qed

lemma bitlen_Bit1: "bitlen (numeral (Num.Bit1 n)) = bitlen (numeral n) + 1"
proof -
  have "bitlen (numeral (Num.Bit1 n)) = bitlen (numeral (Num.Bit1 n) div 2) + 1"
    by (subst compute_bitlen) simp
  then show ?thesis by simp
qed

lemma bitlen_Num_One: "bitlen (numeral Num.One) = 1"
  by (simp add: bitlen_One)

lemmas fl_eval = fl_def nearest_def ulp_def bexp_def exponent_def round_even_def Let_def
  bitlen_One bitlen_Bit0 bitlen_Bit1 bitlen_Num_One

subsection \<open>Draws as array indices\<close>

lemma fl_one: "fl 1 = Fin 1"
  by (simp add: fl_eval)

lemma fl_ten: "fl 10 = Fin 10"
  by (simp add: fl_eval)

lemma fl_hundred: "fl 100 = Fin 100"
  by (simp add: fl_eval)

lemma fl_thousand: "fl 1000 = Fin 1000"
  by (simp add: fl_eval)

lemma fl_below_three: "fl (3 - 3 / 2 ^ 53) = Fin (3 - 1 / 2 ^ 51)"
  by (simp add: fl_eval)

lemma valid_draw_Fin:
  assumes "valid_draw r"
  obtains x where "r = Fin x" and "0 \<le> x" and "x < 1" and "fl x = Fin x"
  using assms by (cases r) (auto simp: valid_draw_def)

lemma draw_times_three:
  assumes "valid_draw r"
  shows "\<exists>k. Math_floor (jmul r (Fin 3)) = Fin (of_int k) \<and> 0 \<le> k \<and> k < 3"
proof -
  from assms obtain x where r: "r = Fin x" and x: "0 \<le> x" "x < 1" "fl x = Fin x"
    by (rule valid_draw_Fin)
  have "x \<le> 1 - 1 / 2 ^ 53" using x(3,1,2) by (rule double_below_one)
  then have le: "x * 3 \<le> 3 - 3 / 2 ^ 53" by simp
  have nn: "0 \<le> x * 3" using x(1) by simp
  from fl_nonneg_mono [OF nn le fl_below_three] obtain u where
    u: "fl (x * 3) = Fin u" "0 \<le> u" "u \<le> 3 - 1 / 2 ^ 51" by blast
  have "u < 3" using u(3) by simp
  then have "\<lfloor>u\<rfloor> < 3" by (simp add: floor_less_iff)
  moreover have "0 \<le> \<lfloor>u\<rfloor>" using u(2) by simp
  moreover have "Math_floor (jmul r (Fin 3)) = Fin (of_int \<lfloor>u\<rfloor>)"
    by (simp add: r u(1) Math_floor_def)
  ultimately show ?thesis by blast
qed

lemma draw_times_one:
  assumes "valid_draw r"
  shows "Math_floor (jmul r (Fin 1)) = Fin (of_int 0)"
proof -
  from assms obtain x where r: "r = Fin x" and x: "0 \<le> x" "x < 1" "fl x = Fin x"
    by (rule valid_draw_Fin)
  have "\<lfloor>x\<rfloor> = 0" using x(1,2) by (intro floor_unique) simp_all
  then show ?thesis by (simp add: r x(3) Math_floor_def)
qed

lemma at_number_of_int: "at_number xs (Fin (of_int k)) = at_index xs k"
  by (simp add: at_number_def)

lemma at_index_Some_mem: "at_index xs i = Some x \<Longrightarrow> x \<in> set xs"
  by (auto simp: at_index_def split: if_splits)

lemma at_number_Some_mem: "at_number xs a = Some x \<Longrightarrow> x \<in> set xs"
  by (cases a) (auto simp: at_number_def dest: at_index_Some_mem split: if_splits)

lemma at_index_in_range:
  "0 \<le> i \<Longrightarrow> i < int (length xs) \<Longrightarrow> \<exists>x. at_index xs i = Some x"
  by (simp add: at_index_def)

lemma at_number_draw:
  assumes "valid_draw r" and "length xs = 3 \<or> length xs = 1"
  shows "\<exists>x. at_number xs (Math_floor (jmul r (Fin (real (length xs))))) = Some x"
  using assms(2)
proof
  assume l: "length xs = 3"
  from draw_times_three [OF assms(1)] obtain k where
    k: "Math_floor (jmul r (Fin 3)) = Fin (of_int k)" "0 \<le> k" "k < 3" by blast
  have "\<exists>x. at_index xs k = Some x" using k(2,3) l by (intro at_index_in_range) simp_all
  then show ?thesis by (simp add: l k(1) at_number_of_int)
next
  assume l: "length xs = 1"
  have "\<exists>x. at_index xs 0 = Some x" using l by (intro at_index_in_range) simp_all
  then show ?thesis
    using draw_times_one [OF assms(1)] at_number_of_int [of xs 0] by (simp add: l)
qed

lemma generateTelemetry_scenario:
  assumes "generateTelemetry scs now d = Some t"
  shows "\<exists>sc \<in> set scs. TelemetryData.status t = Scenario.status sc \<and> session_id t = sessionId sc
           \<and> energy_source t \<in> set (energySource sc)"
proof -
  from assms obtain sc where
    sc: "at_number scs (Math_floor (jmul (r_scenario d) (Fin (real (length scs))))) = Some sc"
    by (auto simp: generateTelemetry_def split: option.splits)
  from assms sc obtain src where
    src: "at_number (energySource sc)
            (Math_floor (jmul (r_source d) (Fin (real (length (energySource sc)))))) = Some src"
    by (auto simp: generateTelemetry_def Let_def split: option.splits)
  from assms sc src have
    "TelemetryData.status t = Scenario.status sc \<and> session_id t = sessionId sc \<and> energy_source t = src"
    by (auto simp: generateTelemetry_def Let_def)
  moreover have "sc \<in> set scs" using sc by (rule at_number_Some_mem)
  moreover have "src \<in> set (energySource sc)" using src by (rule at_number_Some_mem)
  ultimately show ?thesis by blast
qed

lemma generateTelemetry_cases:
  assumes "generateTelemetry (scenarios a b) now d = Some t"
  shows "(TelemetryData.status t = ''charging'' \<and> session_id t = Some (mock_sessionId a)
            \<and> energy_source t \<in> {''solar'', ''grid''})
       \<or> (TelemetryData.status t = ''available'' \<and> session_id t = None \<and> energy_source t = ''none'')
       \<or> (TelemetryData.status t = ''preparing'' \<and> session_id t = Some (mock_sessionId b)
            \<and> energy_source t = ''solar'')"
  using generateTelemetry_scenario [OF assms] by (auto simp: scenarios_def)

lemma generateTelemetry_total:
  assumes "valid_draws d"
  shows "\<exists>t. generateTelemetry (scenarios a b) now d = Some t"
proof -
  have v1: "valid_draw (r_scenario d)" and v2: "valid_draw (r_source d)"
    using assms by (simp_all add: valid_draws_def)
  have len: "length (scenarios a b) = 3 \<or> length (scenarios a b) = 1"
    by (simp add: scenarios_def)
  from at_number_draw [OF v1 len] obtain sc where
    sc: "at_number (scenarios a b)
           (Math_floor (jmul (r_scenario d) (Fin (real (length (scenarios a b)))))) = Some sc"
    by blast
  then have "sc \<in> set (scenarios a b)" by (rule at_number_Some_mem)
  then have "length (energySource sc) = 3 \<or> length (energySource sc) = 1"
    by (auto simp: scenarios_def)
  from at_number_draw [OF v2 this] obtain src where
    src: "at_number (energySource sc)
            (Math_floor (jmul (r_source d) (Fin (real (length (energySource sc)))))) = Some src"
    by blast
  show ?thesis using sc src by (simp add: generateTelemetry_def Let_def)
qed

lemma generateTelemetry_consistent:
  assumes "generateTelemetry (scenarios a b) now d = Some t"
  shows "telemetry_consistent t"
  using generateTelemetry_cases [OF assms]
  by (auto simp: telemetry_consistent_def lifecycle_states_def)


subsection \<open>The loop of the demo feed\<close>

lemma set_Map_set: "set (Map_set k v m) \<subseteq> insert (k, v) (set m)"
  by (induction m) auto

lemma Map_set_not_Nil: "Map_set k v m \<noteq> []"
  by (cases m) auto

lemma generate_units_invariant:
  assumes gen: "\<And>d t. generateTelemetry scs now d = Some t \<Longrightarrow> P t"
  shows "generate_units scs now i ds units = Some us \<Longrightarrow>
         \<forall>u \<in> set (Map_values units). P (telemetry u) \<Longrightarrow>
         \<forall>u \<in> set (Map_values us). P (telemetry u)"
proof (induction ds arbitrary: i units us)
  case Nil
  then show ?case by simp
next
  case (Cons d ds)
  from Cons.prems(1) obtain t where t: "generateTelemetry scs now d = Some t"
    and rec: "generate_units scs now (i + 1) ds (Map_set (mock_unitId i) (mock_unit now i t) units) = Some us"
    by (auto split: option.splits)
  have Pt: "P t" using gen t by blast
  have inv: "\<forall>u \<in> set (Map_values (Map_set (mock_unitId i) (mock_unit now i t) units)). P (telemetry u)"
  proof
    fix u assume "u \<in> set (Map_values (Map_set (mock_unitId i) (mock_unit now i t) units))"
    then obtain k where "(k, u) \<in> set (Map_set (mock_unitId i) (mock_unit now i t) units)"
      by (auto simp: Map_values_def)
    then have "(k, u) = (mock_unitId i, mock_unit now i t) \<or> (k, u) \<in> set units"
      using set_Map_set by fastforce
    then show "P (telemetry u)"
    proof
      assume "(k, u) = (mock_unitId i, mock_unit now i t)"
      then show ?thesis using Pt by (simp add: mock_unit_def)
    next
      assume "(k, u) \<in> set units"
      then have "u \<in> set (Map_values units)" by (force simp: Map_values_def)
      then show ?thesis using Cons.prems(2) by blast
    qed
  qed
  show ?case by (rule Cons.IH [OF rec inv])
qed

lemma generate_units_total:
  assumes "\<And>d. d \<in> set ds \<Longrightarrow> \<exists>t. generateTelemetry scs now d = Some t"
  shows "\<exists>us. generate_units scs now i ds units = Some us \<and> (units \<noteq> [] \<or> ds \<noteq> [] \<longrightarrow> us \<noteq> [])"
  using assms
proof (induction ds arbitrary: i units)
  case Nil
  then show ?case by simp
next
  case (Cons d ds)
  from Cons.prems obtain t where t: "generateTelemetry scs now d = Some t" by auto
  have rest: "\<And>e. e \<in> set ds \<Longrightarrow> \<exists>t. generateTelemetry scs now e = Some t"
    using Cons.prems by simp
  from Cons.IH [OF rest, of "i + 1" "Map_set (mock_unitId i) (mock_unit now i t) units"]
  obtain us where
    us: "generate_units scs now (i + 1) ds (Map_set (mock_unitId i) (mock_unit now i t) units) = Some us"
    and ne: "us \<noteq> []"
    using Map_set_not_Nil by blast
  then show ?case using t by simp
qed

lemma generateMockData_total:
  assumes "valid_mock_draws m"
  shows "\<exists>r. generateMockData now m = Some r"
proof -
  let ?scs = "scenarios (r_sess_charging m) (r_sess_preparing m)"
  let ?ds = "[unit1_draws m, unit2_draws m, unit3_draws m]"
  have tot: "\<And>d. d \<in> set ?ds \<Longrightarrow> \<exists>t. generateTelemetry ?scs now d = Some t"
  proof -
    fix d assume "d \<in> set ?ds"
    then have "valid_draws d" using assms by (auto simp: valid_mock_draws_def)
    then show "\<exists>t. generateTelemetry ?scs now d = Some t" by (rule generateTelemetry_total)
  qed
  have "\<exists>us. generate_units ?scs now 1 ?ds [] = Some us \<and> (([]::UnitMap) \<noteq> [] \<or> ?ds \<noteq> [] \<longrightarrow> us \<noteq> [])"
    by (rule generate_units_total [OF tot])
  then obtain us where g: "generate_units ?scs now 1 ?ds [] = Some us" and ne: "us \<noteq> []"
    by blast
  from ne obtain f r where us: "us = f # r" by (cases us) auto
  show ?thesis unfolding generateMockData_def g us by simp
qed

lemma generateMockData_units:
  assumes "generateMockData now m = Some r"
  shows "generate_units (scenarios (r_sess_charging m) (r_sess_preparing m)) now 1
           [unit1_draws m, unit2_draws m, unit3_draws m] [] = Some (evse_units r)
         \<and> system_stats r = mock_systemStats now (r_avg_temperature m) (evse_units r)
         \<and> (\<exists>first rest. evse_units r = first # rest \<and> latest_telemetry r = telemetry (snd first))"
  using assms by (auto simp: generateMockData_def split: option.splits list.splits)

lemma generateMockData_consistent:
  assumes "generateMockData now m = Some r"
  shows "\<forall>u \<in> set (Map_values (evse_units r)). telemetry_consistent (telemetry u)"
proof -
  let ?scs = "scenarios (r_sess_charging m) (r_sess_preparing m)"
  have g: "generate_units ?scs now 1 [unit1_draws m, unit2_draws m, unit3_draws m] []
             = Some (evse_units r)"
    using generateMockData_units [OF assms] by (rule conjunct1)
  have gen: "\<And>d t. generateTelemetry ?scs now d = Some t \<Longrightarrow> telemetry_consistent t"
    by (rule generateTelemetry_consistent)
  have start: "\<forall>u \<in> set (Map_values []). telemetry_consistent (telemetry u)"
    by (simp add: Map_values_def)
  show ?thesis
    by (rule generate_units_invariant [where P = telemetry_consistent, OF gen g start])
qed

lemma generateTelemetry_not_faulted:
  assumes "generateTelemetry (scenarios a b) now d = Some t"
  shows "TelemetryData.status t \<noteq> ''faulted''"
  using generateTelemetry_cases [OF assms] by auto

lemma generateMockData_no_fault:
  assumes "generateMockData now m = Some r"
  shows "filter (\<lambda>u. TelemetryData.status (telemetry u) = ''faulted'') (Map_values (evse_units r)) = []"
proof -
  let ?scs = "scenarios (r_sess_charging m) (r_sess_preparing m)"
  have g: "generate_units ?scs now 1 [unit1_draws m, unit2_draws m, unit3_draws m] []
             = Some (evse_units r)"
    using generateMockData_units [OF assms] by (rule conjunct1)
  have gen: "\<And>d t. generateTelemetry ?scs now d = Some t \<Longrightarrow> TelemetryData.status t \<noteq> ''faulted''"
    by (rule generateTelemetry_not_faulted)
  have start: "\<forall>u \<in> set (Map_values []). TelemetryData.status (telemetry u) \<noteq> ''faulted''"
    by (simp add: Map_values_def)
  have "\<forall>u \<in> set (Map_values (evse_units r)). TelemetryData.status (telemetry u) \<noteq> ''faulted''"
    by (rule generate_units_invariant
          [where P = "\<lambda>t. TelemetryData.status t \<noteq> ''faulted''", OF gen g start])
  then show ?thesis by (simp only: filter_False)
qed

subsection \<open>Keys of the live feed\<close>

lemma map_of_Map_set: "map_of (Map_set k v m) k = Some v"
  by (induction m) auto

lemma split_not_Nil: "split c s \<noteq> []"
  by (induction s) (auto split: list.splits)

lemma split_piece:
  "CHR ''_'' \<notin> set x \<Longrightarrow> split CHR ''_'' (x @ CHR ''_'' # rest) = x # split CHR ''_'' rest"
  by (induction x) auto

lemma rotating_unit_number:
  "padStart 2 CHR ''0'' (string_of_nat (k mod 3 + 1)) = CHR ''0'' # string_of_nat (k mod 3 + 1)"
proof -
  have "k mod 3 = 0 \<or> k mod 3 = 1 \<or> k mod 3 = 2" by linarith
  then show ?thesis by (auto simp: padStart_def)
qed


subsection \<open>The two folds\<close>

lemma foldl_reducer_power:
  "acc_total_power_w (foldl reducer a us) =
     foldl jadd (acc_total_power_w a) (map (\<lambda>u. power_w (telemetry u)) us)"
  by (induction us arbitrary: a) (simp_all add: reducer_def Let_def)

lemma foldl_reducer_solar:
  "acc_total_solar_energy_kwh (foldl reducer a us) =
     foldl jadd (acc_total_solar_energy_kwh a) (map (\<lambda>u. session_energy_kwh_solar (telemetry u)) us)"
  by (induction us arbitrary: a) (simp_all add: reducer_def Let_def)

lemma foldl_reducer_grid:
  "acc_total_grid_energy_kwh (foldl reducer a us) =
     foldl jadd (acc_total_grid_energy_kwh a) (map (\<lambda>u. session_energy_kwh_grid (telemetry u)) us)"
  by (induction us arbitrary: a) (simp_all add: reducer_def Let_def)

lemma foldl_reducer_temperature:
  "acc_total_temperature_c (foldl reducer a us) =
     foldl jadd (acc_total_temperature_c a) (map (\<lambda>u. temperature_c (telemetry u)) us)"
  by (induction us arbitrary: a) (simp_all add: reducer_def Let_def)

lemma foldl_reducer_sessions:
  "acc_active_sessions (foldl reducer a us) =
     acc_active_sessions a + length (filter (\<lambda>u. truthy (session_id (telemetry u))) us)"
  by (induction us arbitrary: a) (simp_all add: reducer_def Let_def)

lemma foldl_reducer_available:
  "acc_available_units (foldl reducer a us) =
     acc_available_units a + length (filter (\<lambda>u. TelemetryData.status (telemetry u) = ''available'') us)"
  by (induction us arbitrary: a) (simp_all add: reducer_def Let_def)

lemma foldl_reducer_charging:
  "acc_charging_units (foldl reducer a us) =
     acc_charging_units a + length (filter (\<lambda>u. TelemetryData.status (telemetry u) = ''charging'') us)"
  by (induction us arbitrary: a) (simp_all add: reducer_def Let_def)

lemma foldl_reducer_faulted:
  "acc_faulted_units (foldl reducer a us) =
     acc_faulted_units a + length (filter (\<lambda>u. TelemetryData.status (telemetry u) = ''faulted'') us)"
  by (induction us arbitrary: a) (simp_all add: reducer_def Let_def)

lemma foldl_mock_power:
  "totalPower (foldl mock_step a us) =
     foldl jadd (totalPower a) (map (\<lambda>u. power_w (telemetry u)) us)"
  by (induction us arbitrary: a) (simp_all add: mock_step_def Let_def)

lemma foldl_mock_solar:
  "totalSolar (foldl mock_step a us) =
     foldl jadd (totalSolar a) (map (\<lambda>u. session_energy_kwh_solar (telemetry u)) us)"
  by (induction us arbitrary: a) (simp_all add: mock_step_def Let_def)

lemma foldl_mock_grid:
  "totalGrid (foldl mock_step a us) =
     foldl jadd (totalGrid a) (map (\<lambda>u. session_energy_kwh_grid (telemetry u)) us)"
  by (induction us arbitrary: a) (simp_all add: mock_step_def Let_def)

lemma foldl_mock_sessions:
  "activeSessions (foldl mock_step a us) =
     activeSessions a + length (filter (\<lambda>u. truthy (session_id (telemetry u))) us)"
  by (induction us arbitrary: a) (simp_all add: mock_step_def Let_def)

lemma foldl_mock_charging:
  "chargingUnits (foldl mock_step a us) =
     chargingUnits a + length (filter (\<lambda>u. TelemetryData.status (telemetry u) = ''charging'') us)"
  by (induction us arbitrary: a) (simp_all add: mock_step_def Let_def)

lemma foldl_mock_available:
  "availableUnits (foldl mock_step a us) =
     availableUnits a + length (filter (\<lambda>u. TelemetryData.status (telemetry u) = ''available'') us)"
  by (induction us arbitrary: a) (simp_all add: mock_step_def Let_def)

lemma Number_toFixed_zero: "Number_toFixed d (Fin 0) = Fin 0"
  by (simp add: Number_toFixed_def toFixed_def fl_zero)

lemma Math_round_zero: "Math_round (Fin 0) = Fin 0"
  by (simp add: Math_round_def)

lemma jsum_Nil: "jsum [] = Fin 0"
  by (simp add: jsum_def)

subsection \<open>The statistics as sums and counts\<close>

lemma calculateSystemStats_unfold:
  "calculateSystemStats now units =
     (if Map_values units = [] then
        \<lparr>total_power_w = Fin 0, total_solar_energy_kwh = Fin 0, total_grid_energy_kwh = Fin 0,
         total_energy_kwh = Fin 0, avg_temperature_c = Fin 0, solar_percentage = Fin 0,
         active_sessions = 0, available_units = 0, charging_units = 0,
         faulted_units = 0, last_updated = now\<rparr>
      else
        \<lparr>total_power_w = Math_round (jsum (map (\<lambda>u. power_w (telemetry u)) (Map_values units))),
         total_solar_energy_kwh =
           Number_toFixed 4 (jsum (map (\<lambda>u. session_energy_kwh_solar (telemetry u)) (Map_values units))),
         total_grid_energy_kwh =
           Number_toFixed 4 (jsum (map (\<lambda>u. session_energy_kwh_grid (telemetry u)) (Map_values units))),
         total_energy_kwh =
           Number_toFixed 4
             (jadd (jsum (map (\<lambda>u. session_energy_kwh_solar (telemetry u)) (Map_values units)))
                   (jsum (map (\<lambda>u. session_energy_kwh_grid (telemetry u)) (Map_values units)))),
         avg_temperature_c =
           Number_toFixed 1
             (jdiv (jsum (map (\<lambda>u. temperature_c (telemetry u)) (Map_values units)))
                   (Fin (real (length (Map_values units))))),
         solar_percentage =
           Number_toFixed 1 (solarPercentage
             (jsum (map (\<lambda>u. session_energy_kwh_solar (telemetry u)) (Map_values units)))
             (jsum (map (\<lambda>u. session_energy_kwh_grid (telemetry u)) (Map_values units)))),
         active_sessions = length (filter (\<lambda>u. truthy (session_id (telemetry u))) (Map_values units)),
         available_units =
           length (filter (\<lambda>u. TelemetryData.status (telemetry u) = ''available'') (Map_values units)),
         charging_units =
           length (filter (\<lambda>u. TelemetryData.status (telemetry u) = ''charging'') (Map_values units)),
         faulted_units =
           length (filter (\<lambda>u. TelemetryData.status (telemetry u) = ''faulted'') (Map_values units)),
         last_updated = now\<rparr>)"
  by (simp add: calculateSystemStats_def Let_def acc_init_def jsum_def
      foldl_reducer_power foldl_reducer_solar foldl_reducer_grid foldl_reducer_temperature
      foldl_reducer_sessions foldl_reducer_available foldl_reducer_charging foldl_reducer_faulted)

lemma mock_systemStats_unfold:
  "mock_systemStats now r units =
     \<lparr>total_power_w = Math_round (jsum (map (\<lambda>u. power_w (telemetry u)) (Map_values units))),
      total_solar_energy_kwh =
        round_to 4 (jsum (map (\<lambda>u. session_energy_kwh_solar (telemetry u)) (Map_values units))),
      total_grid_energy_kwh =
        round_to 4 (jsum (map (\<lambda>u. session_energy_kwh_grid (telemetry u)) (Map_values units))),
      total_energy_kwh =
        round_to 4
          (jadd (jsum (map (\<lambda>u. session_energy_kwh_solar (telemetry u)) (Map_values units)))
                (jsum (map (\<lambda>u. session_energy_kwh_grid (telemetry u)) (Map_values units)))),
      avg_temperature_c = round_to 1 (jadd (jmul r (Fin 10)) (Fin 25)),
      solar_percentage =
        round_to 1 (solarPercentage
          (jsum (map (\<lambda>u. session_energy_kwh_solar (telemetry u)) (Map_values units)))
          (jsum (map (\<lambda>u. session_energy_kwh_grid (telemetry u)) (Map_values units)))),
      active_sessions = length (filter (\<lambda>u. truthy (session_id (telemetry u))) (Map_values units)),
      available_units =
        length (filter (\<lambda>u. TelemetryData.status (telemetry u) = ''available'') (Map_values units)),
      charging_units =
        length (filter (\<lambda>u. TelemetryData.status (telemetry u) = ''charging'') (Map_values units)),
      faulted_units = 0,
      last_updated = now\<rparr>"
  by (simp add: mock_systemStats_def Let_def mock_acc_init_def jsum_def
      foldl_mock_power foldl_mock_solar foldl_mock_grid
      foldl_mock_sessions foldl_mock_available foldl_mock_charging)

lemma reducer_telemetry_only: "telemetry u = telemetry u' \<Longrightarrow> reducer a u = reducer a u'"
  by (simp add: reducer_def)

lemma foldl_reducer_telemetry_only:
  "map telemetry us = map telemetry us' \<Longrightarrow> foldl reducer a us = foldl reducer a us'"
proof (induction us arbitrary: us' a)
  case Nil
  then show ?case by simp
next
  case (Cons u us)
  then obtain u' vs where v: "us' = u' # vs" by (cases us') auto
  with Cons.prems have t: "telemetry u = telemetry u'" and m: "map telemetry us = map telemetry vs"
    by simp_all
  show ?case
    unfolding v using Cons.IH [OF m] reducer_telemetry_only [OF t] by simp
qed

lemma calculateSystemStats_telemetry_only:
  assumes "map telemetry (Map_values units) = map telemetry (Map_values units')"
  shows "calculateSystemStats now units = calculateSystemStats now units'"
proof -
  have "length (map telemetry (Map_values units)) = length (map telemetry (Map_values units'))"
    using assms by simp
  then have l: "length (Map_values units) = length (Map_values units')" by simp
  show ?thesis
    unfolding calculateSystemStats_def Let_def
    using l foldl_reducer_telemetry_only [OF assms] by simp
qed

lemma valid_sample_draws:
  "valid_draws (sample_draws 0 (1 / 2))" "valid_draws (sample_draws (1 / 2) 0)"
  "valid_draws (sample_draws (7 / 8) 0)" "valid_draws (sample_draws 0 0)"
  by (simp_all add: sample_draws_def valid_draws_def valid_draw_def fl_eval)

lemma valid_sample_mock_draws: "valid_mock_draws sample_mock_draws"
  using valid_sample_draws
  by (simp add: valid_mock_draws_def sample_mock_draws_def valid_draw_def fl_eval)

lemma generateMockData_stats:
  assumes "valid_mock_draws m"
  shows "\<exists>r. generateMockData now m = Some r
           \<and> system_stats r = mock_systemStats now (r_avg_temperature m) (evse_units r)
           \<and> faulted_units (system_stats r) =
               length (filter (\<lambda>u. TelemetryData.status (telemetry u) = ''faulted'')
                         (Map_values (evse_units r)))"
proof -
  from generateMockData_total [OF assms] obtain r where r: "generateMockData now m = Some r"
    by blast
  have s: "system_stats r = mock_systemStats now (r_avg_temperature m) (evse_units r)"
    using generateMockData_units [OF r] by simp
  have "faulted_units (system_stats r) = 0"
    unfolding s by (simp add: mock_systemStats_unfold)
  then show ?thesis using r s generateMockData_no_fault [OF r] by simp
qed


section \<open>Status and session id agree in generated telemetry\<close>

text \<open>
  C4. Every record the demo feed generates, for a single call and for each of the three
  units of a tick, has one of the five lifecycle states as its status, and its status is
  \<open>available\<close> exactly when it has no session id.
\<close>

theorem telemetry_status_session_consistent:
  "(valid_draws d \<longrightarrow>
      (\<exists>t. generateTelemetry (scenarios a b) now d = Some t \<and> telemetry_consistent t))
   \<and> (valid_mock_draws m \<longrightarrow>
      (\<exists>r. generateMockData now m = Some r
         \<and> (\<forall>u \<in> set (Map_values (evse_units r)). telemetry_consistent (telemetry u))
         \<and> telemetry_consistent (latest_telemetry r)))"
proof (intro conjI impI)
  assume "valid_draws d"
  from generateTelemetry_total [OF this] obtain t where
    "generateTelemetry (scenarios a b) now d = Some t" by blast
  then show "\<exists>t. generateTelemetry (scenarios a b) now d = Some t \<and> telemetry_consistent t"
    using generateTelemetry_consistent by blast
next
  assume "valid_mock_draws m"
  from generateMockData_total [OF this] obtain r where r: "generateMockData now m = Some r"
    by blast
  have all: "\<forall>u \<in> set (Map_values (evse_units r)). telemetry_consistent (telemetry u)"
    by (rule generateMockData_consistent [OF r])
  from generateMockData_units [OF r] obtain first rest where
    "evse_units r = first # rest" and "latest_telemetry r = telemetry (snd first)" by blast
  then have "telemetry_consistent (latest_telemetry r)"
    using all by (simp add: Map_values_def)
  then show "\<exists>r. generateMockData now m = Some r
         \<and> (\<forall>u \<in> set (Map_values (evse_units r)). telemetry_consistent (telemetry u))
         \<and> telemetry_consistent (latest_telemetry r)"
    using r all by blast
qed

theorem telemetry_status_session_consistent_witness:
  "valid_draws (sample_draws 0 (1 / 2))
   \<and> (\<exists>t. generateTelemetry (scenarios (Fin (1 / 2)) (Fin (1 / 4))) ''now''
             (sample_draws 0 (1 / 2)) = Some t
          \<and> telemetry_consistent t)
   \<and> valid_mock_draws sample_mock_draws
   \<and> (\<exists>r. generateMockData ''now'' sample_mock_draws = Some r
         \<and> list_all (\<lambda>u. telemetry_consistent (telemetry u)) (Map_values (evse_units r))
         \<and> telemetry_consistent (latest_telemetry r))"
proof -
  have v: "valid_draws (sample_draws 0 (1 / 2))"
    by (rule valid_sample_draws)
  show ?thesis
    unfolding list_all_iff
    using telemetry_status_session_consistent
            [of "sample_draws 0 (1 / 2)" "Fin (1 / 2)" "Fin (1 / 4)" "''now''" sample_mock_draws]
          v valid_sample_mock_draws
    by blast
qed


section \<open>The contract of the power curve\<close>

text \<open>
  C3. The power curve is zero outside the charging phase and the nominal power below an
  elapsed fraction of 0.8; from 0.8 to 1.0 it is \<open>nominal * (1 - 4 * (fraction - 0.8))\<close>,
  not lower than \<open>0.2 * nominal\<close>; it is \<open>0.2 * nominal\<close> at 1.0; and for a
  nominal power that is not negative it is the nominal power at 0.8 and does not increase
  from 0.8 to 1.0.
\<close>

theorem power_curve_contract:
  "(ph \<noteq> Charging \<longrightarrow> power_curve ph f n = 0)
   \<and> (f < 8 / 10 \<longrightarrow> power_curve Charging f n = n)
   \<and> (8 / 10 \<le> f \<and> f \<le> 1 \<longrightarrow>
        power_curve Charging f n = max (2 / 10 * n) (n * (1 - 4 * (f - 8 / 10))))
   \<and> power_curve Charging 1 n = 2 / 10 * n
   \<and> (0 \<le> n \<longrightarrow>
        power_curve Charging (8 / 10) n = n
        \<and> (8 / 10 \<le> f \<and> f \<le> g \<and> g \<le> 1 \<longrightarrow>
             power_curve Charging g n \<le> power_curve Charging f n))"
proof (intro conjI impI)
  assume "ph \<noteq> Charging"
  then show "power_curve ph f n = 0" by (simp add: power_curve_def)
next
  assume "f < 8 / 10"
  then show "power_curve Charging f n = n" by (simp add: power_curve_def)
next
  assume "8 / 10 \<le> f \<and> f \<le> 1"
  then show "power_curve Charging f n = max (2 / 10 * n) (n * (1 - 4 * (f - 8 / 10)))"
    by (simp add: power_curve_def)
next
  show "power_curve Charging 1 n = 2 / 10 * n" by (simp add: power_curve_def)
next
  assume "0 \<le> n"
  then show "power_curve Charging (8 / 10) n = n" by (simp add: power_curve_def max_def)
next
  assume n: "0 \<le> n" and r: "8 / 10 \<le> f \<and> f \<le> g \<and> g \<le> 1"
  have "1 - 4 * (g - 8 / 10) \<le> 1 - 4 * (f - 8 / 10)" using r by simp
  then have "n * (1 - 4 * (g - 8 / 10)) \<le> n * (1 - 4 * (f - 8 / 10))"
    using n by (rule mult_left_mono)
  then have "max (2 / 10 * n) (n * (1 - 4 * (g - 8 / 10)))
               \<le> max (2 / 10 * n) (n * (1 - 4 * (f - 8 / 10)))"
    by (simp add: max_def)
  moreover have "f \<le> 1" "\<not> f < 8 / 10" "\<not> g < 8 / 10" "g \<le> 1" using r by simp_all
  ultimately show "power_curve Charging g n \<le> power_curve Charging f n"
    by (simp add: power_curve_def)
qed

theorem power_curve_contract_witness:
  "Available \<noteq> Charging \<and> power_curve Available (9 / 10) 7360 = 0
   \<and> power_curve Charging (1 / 2) 7360 = 7360
   \<and> power_curve Charging (9 / 10) 7360 = max (2 / 10 * 7360) (7360 * (1 - 4 * (9 / 10 - 8 / 10)))
   \<and> power_curve Charging 1 7360 = 1472
   \<and> power_curve Charging (8 / 10) 7360 = 7360
   \<and> power_curve Charging 1 7360 \<le> power_curve Charging (9 / 10) 7360"
  using power_curve_contract [of Available "9 / 10" 7360 1]
        power_curve_contract [of Available "1 / 2" 7360 1]
  by simp


section \<open>The key of a record in the fleet state\<close>

text \<open>
  C7 (amended). A record that carries a non-empty unit id is stored under that unit id.
  A record that carries none is stored under a key the consumer works out: under
  \<open>evse_unit_01\<close> when it has no session id either; under \<open>evse_unit_\<close> and
  the third piece of a session id that starts with \<open>evse_unit_\<close>; and for a session
  id that starts with \<open>sess_\<close> under \<open>evse_unit_01\<close>, \<open>evse_unit_02\<close> or
  \<open>evse_unit_03\<close>, changing with the clock every five seconds.
\<close>

theorem unit_key_is_unit_id:
  "(TelemetryData.unit_id data = Some u \<and> u \<noteq> [] \<longrightarrow>
      deriveUnitId now_ms data = u
      \<and> map_of (evseUnits (onmessage now_ms now_iso (Some data) st)) u
          = Some \<lparr>EVSEUnit.unit_id = u, telemetry = data, EVSEUnit.last_updated = now_iso\<rparr>)
   \<and> (\<not> truthy (TelemetryData.unit_id data) \<and> \<not> truthy (session_id data) \<longrightarrow>
      deriveUnitId now_ms data = ''evse_unit_01'')
   \<and> (\<not> truthy (TelemetryData.unit_id data) \<and> session_id data = Some (''sess_'' @ rest) \<longrightarrow>
      deriveUnitId now_ms data
        = ''evse_unit_0'' @ string_of_nat ((now_ms div 5000) mod 3 + 1))
   \<and> (\<not> truthy (TelemetryData.unit_id data)
        \<and> session_id data = Some (''evse_unit_'' @ x @ CHR ''_'' # rest)
        \<and> CHR ''_'' \<notin> set x \<longrightarrow>
      deriveUnitId now_ms data = ''evse_unit_'' @ x)"
proof (intro conjI impI)
  assume a: "TelemetryData.unit_id data = Some u \<and> u \<noteq> []"
  then show k: "deriveUnitId now_ms data = u"
    by (simp add: deriveUnitId_def truthy_def)
  show "map_of (evseUnits (onmessage now_ms now_iso (Some data) st)) u
          = Some \<lparr>EVSEUnit.unit_id = u, telemetry = data, EVSEUnit.last_updated = now_iso\<rparr>"
    by (simp add: onmessage_def Let_def k map_of_Map_set)
next
  assume "\<not> truthy (TelemetryData.unit_id data) \<and> \<not> truthy (session_id data)"
  then show "deriveUnitId now_ms data = ''evse_unit_01''"
    by (auto simp: deriveUnitId_def truthy_def split: option.splits)
next
  assume a: "\<not> truthy (TelemetryData.unit_id data) \<and> session_id data = Some (''sess_'' @ rest)"
  obtain p ps where p: "split CHR ''_'' rest = p # ps"
    using split_not_Nil [of "CHR ''_''" rest] by (cases "split CHR ''_'' rest") auto
  have sp: "split CHR ''_'' (CHR ''s'' # CHR ''e'' # CHR ''s'' # CHR ''s'' # CHR ''_'' # rest)
              = ''sess'' # p # ps"
    using p by simp
  have t: "truthy (session_id data)" using a by (simp add: truthy_def)
  have "deriveUnitId now_ms data
          = ''evse_unit_'' @ padStart 2 CHR ''0'' (string_of_nat ((now_ms div 5000) mod 3 + 1))"
    using a t unfolding deriveUnitId_def Let_def
    by (simp del: string_of_nat.simps split.simps add: sp)
  then show "deriveUnitId now_ms data
        = ''evse_unit_0'' @ string_of_nat ((now_ms div 5000) mod 3 + 1)"
    by (simp only: rotating_unit_number) simp
next
  assume a: "\<not> truthy (TelemetryData.unit_id data)
        \<and> session_id data = Some (''evse_unit_'' @ x @ CHR ''_'' # rest)
        \<and> CHR ''_'' \<notin> set x"
  have s: "split CHR ''_'' (CHR ''e'' # CHR ''v'' # CHR ''s'' # CHR ''e'' # CHR ''_'' #
               CHR ''u'' # CHR ''n'' # CHR ''i'' # CHR ''t'' # CHR ''_'' # x @ CHR ''_'' # rest)
             = ''evse'' # ''unit'' # x # split CHR ''_'' rest"
    using split_piece [of x rest] a by simp
  have t: "truthy (session_id data)" using a by (simp add: truthy_def)
  show "deriveUnitId now_ms data = ''evse_unit_'' @ x"
    using a t unfolding deriveUnitId_def Let_def
    by (simp del: split.simps add: s at_index_def)
qed

theorem unit_key_is_unit_id_witness:
  "TelemetryData.unit_id (unkeyed_record ''sess_1234''\<lparr>TelemetryData.unit_id := Some ''evse_unit_07''\<rparr>)
      = Some ''evse_unit_07''
   \<and> ''evse_unit_07'' \<noteq> []
   \<and> deriveUnitId 5000 (unkeyed_record ''sess_1234''\<lparr>TelemetryData.unit_id := Some ''evse_unit_07''\<rparr>)
      = ''evse_unit_07''
   \<and> \<not> truthy (TelemetryData.unit_id (unkeyed_record ''sess_1234''))
   \<and> session_id (unkeyed_record ''sess_1234'') = Some (''sess_'' @ ''1234'')
   \<and> deriveUnitId 5000 (unkeyed_record ''sess_1234'') = ''evse_unit_02''"
  using unit_key_is_unit_id
          [of "unkeyed_record ''sess_1234''\<lparr>TelemetryData.unit_id := Some ''evse_unit_07''\<rparr>"
              "''evse_unit_07''" 5000 "''now''"
              "\<lparr>telemetryData = None, evseUnits = [], systemStats = None\<rparr>" "''1234''" "''03''"]
        unit_key_is_unit_id
          [of "unkeyed_record ''sess_1234''" "''evse_unit_07''" 5000 "''now''"
              "\<lparr>telemetryData = None, evseUnits = [], systemStats = None\<rparr>" "''1234''" "''03''"]
  by (simp add: unkeyed_record_def sample_record_def truthy_def)

text \<open>
  The claim as first stated, with the key never taken from the session id and never
  rotating, fails on a record without unit id: the same record is stored under three
  different keys at three times, and a session id that starts with \<open>evse_unit_03\<close>
  gives that key.
\<close>

theorem unit_key_is_unit_id_counterexample:
  "TelemetryData.unit_id (unkeyed_record ''sess_1234'') = None
   \<and> deriveUnitId 0 (unkeyed_record ''sess_1234'') = ''evse_unit_01''
   \<and> deriveUnitId 5000 (unkeyed_record ''sess_1234'') = ''evse_unit_02''
   \<and> deriveUnitId 10000 (unkeyed_record ''sess_1234'') = ''evse_unit_03''
   \<and> deriveUnitId 0 (unkeyed_record ''evse_unit_03_sess_1234'') = ''evse_unit_03''"
  by (simp add: deriveUnitId_def unkeyed_record_def sample_record_def truthy_def padStart_def
      at_index_def)


section \<open>The fleet statistics as a reduction\<close>

text \<open>
  C5 (amended). The fleet statistics are a reduction over the telemetry records of the
  units and read nothing else: two fleet states with the same records, in the same
  order, give the same statistics. With the sum of a list of numbers taken as the code
  forms it, one double addition per unit in the order of the map, the total power is
  the sum of the units' power values rounded to the nearest integer; the total solar
  and grid energies are the sums of the units' energy fields rounded to four decimals;
  the counts of available, charging and faulted units are the numbers of units with
  that status, and the count of active sessions is the number of units whose record has
  a non-empty session id. The demo feed computes the same totals and counts, with the
  faulted count fixed at zero, which is the number of faulted units among those it
  generates.
\<close>

theorem fleet_stats_reduction:
  "total_power_w (calculateSystemStats now units)
     = Math_round (jsum (map (\<lambda>u. power_w (telemetry u)) (Map_values units)))
   \<and> total_solar_energy_kwh (calculateSystemStats now units)
     = Number_toFixed 4 (jsum (map (\<lambda>u. session_energy_kwh_solar (telemetry u)) (Map_values units)))
   \<and> total_grid_energy_kwh (calculateSystemStats now units)
     = Number_toFixed 4 (jsum (map (\<lambda>u. session_energy_kwh_grid (telemetry u)) (Map_values units)))
   \<and> available_units (calculateSystemStats now units)
     = length (filter (\<lambda>u. TelemetryData.status (telemetry u) = ''available'') (Map_values units))
   \<and> charging_units (calculateSystemStats now units)
     = length (filter (\<lambda>u. TelemetryData.status (telemetry u) = ''charging'') (Map_values units))
   \<and> faulted_units (calculateSystemStats now units)
     = length (filter (\<lambda>u. TelemetryData.status (telemetry u) = ''faulted'') (Map_values units))
   \<and> active_sessions (calculateSystemStats now units)
     = length (filter (\<lambda>u. truthy (session_id (telemetry u))) (Map_values units))
   \<and> (map telemetry (Map_values units) = map telemetry (Map_values units')
        \<longrightarrow> calculateSystemStats now units = calculateSystemStats now units')
   \<and> total_power_w (mock_systemStats now r units)
     = Math_round (jsum (map (\<lambda>u. power_w (telemetry u)) (Map_values units)))
   \<and> total_solar_energy_kwh (mock_systemStats now r units)
     = round_to 4 (jsum (map (\<lambda>u. session_energy_kwh_solar (telemetry u)) (Map_values units)))
   \<and> total_grid_energy_kwh (mock_systemStats now r units)
     = round_to 4 (jsum (map (\<lambda>u. session_energy_kwh_grid (telemetry u)) (Map_values units)))
   \<and> available_units (mock_systemStats now r units)
     = length (filter (\<lambda>u. TelemetryData.status (telemetry u) = ''available'') (Map_values units))
   \<and> charging_units (mock_systemStats now r units)
     = length (filter (\<lambda>u. TelemetryData.status (telemetry u) = ''charging'') (Map_values units))
   \<and> active_sessions (mock_systemStats now r units)
     = length (filter (\<lambda>u. truthy (session_id (telemetry u))) (Map_values units))
   \<and> (valid_mock_draws m \<longrightarrow>
        (\<exists>res. generateMockData now m = Some res
           \<and> system_stats res = mock_systemStats now (r_avg_temperature m) (evse_units res)
           \<and> faulted_units (system_stats res) =
               length (filter (\<lambda>u. TelemetryData.status (telemetry u) = ''faulted'')
                         (Map_values (evse_units res)))))"
proof -
  have live: "total_power_w (calculateSystemStats now units)
     = Math_round (jsum (map (\<lambda>u. power_w (telemetry u)) (Map_values units)))
   \<and> total_solar_energy_kwh (calculateSystemStats now units)
     = Number_toFixed 4 (jsum (map (\<lambda>u. session_energy_kwh_solar (telemetry u)) (Map_values units)))
   \<and> total_grid_energy_kwh (calculateSystemStats now units)
     = Number_toFixed 4 (jsum (map (\<lambda>u. session_energy_kwh_grid (telemetry u)) (Map_values units)))
   \<and> available_units (calculateSystemStats now units)
     = length (filter (\<lambda>u. TelemetryData.status (telemetry u) = ''available'') (Map_values units))
   \<and> charging_units (calculateSystemStats now units)
     = length (filter (\<lambda>u. TelemetryData.status (telemetry u) = ''charging'') (Map_values units))
   \<and> faulted_units (calculateSystemStats now units)
     = length (filter (\<lambda>u. TelemetryData.status (telemetry u) = ''faulted'') (Map_values units))
   \<and> active_sessions (calculateSystemStats now units)
     = length (filter (\<lambda>u. truthy (session_id (telemetry u))) (Map_values units))"
    by (cases "Map_values units = []")
       (simp_all add: calculateSystemStats_unfold Math_round_zero Number_toFixed_zero jsum_Nil)
  have pure: "map telemetry (Map_values units) = map telemetry (Map_values units')
        \<longrightarrow> calculateSystemStats now units = calculateSystemStats now units'"
    using calculateSystemStats_telemetry_only by blast
  have mock: "total_power_w (mock_systemStats now r units)
     = Math_round (jsum (map (\<lambda>u. power_w (telemetry u)) (Map_values units)))
   \<and> total_solar_energy_kwh (mock_systemStats now r units)
     = round_to 4 (jsum (map (\<lambda>u. session_energy_kwh_solar (telemetry u)) (Map_values units)))
   \<and> total_grid_energy_kwh (mock_systemStats now r units)
     = round_to 4 (jsum (map (\<lambda>u. session_energy_kwh_grid (telemetry u)) (Map_values units)))
   \<and> available_units (mock_systemStats now r units)
     = length (filter (\<lambda>u. TelemetryData.status (telemetry u) = ''available'') (Map_values units))
   \<and> charging_units (mock_systemStats now r units)
     = length (filter (\<lambda>u. TelemetryData.status (telemetry u) = ''charging'') (Map_values units))
   \<and> active_sessions (mock_systemStats now r units)
     = length (filter (\<lambda>u. truthy (session_id (telemetry u))) (Map_values units))"
    by (simp add: mock_systemStats_unfold)
  have gen: "valid_mock_draws m \<longrightarrow>
        (\<exists>res. generateMockData now m = Some res
           \<and> system_stats res = mock_systemStats now (r_avg_temperature m) (evse_units res)
           \<and> faulted_units (system_stats res) =
               length (filter (\<lambda>u. TelemetryData.status (telemetry u) = ''faulted'')
                         (Map_values (evse_units res))))"
    using generateMockData_stats by blast
  show ?thesis using live pure mock gen by (simp only: simp_thms)
qed

text \<open>
  The same records under other keys give the same statistics, and the demo feed at the
  sample draws returns a fleet without faulted unit.
\<close>

theorem fleet_stats_reduction_witness:
  "map telemetry (Map_values sample_fleet) = map telemetry (Map_values rekeyed_fleet)
   \<and> calculateSystemStats ''now'' sample_fleet = calculateSystemStats ''now'' rekeyed_fleet
   \<and> total_power_w (calculateSystemStats ''now'' sample_fleet) = Fin 3300
   \<and> valid_mock_draws sample_mock_draws
   \<and> (\<exists>res. generateMockData ''now'' sample_mock_draws = Some res
           \<and> faulted_units (system_stats res) =
               length (filter (\<lambda>u. TelemetryData.status (telemetry u) = ''faulted'')
                         (Map_values (evse_units res))))"
proof -
  have e: "map telemetry (Map_values sample_fleet) = map telemetry (Map_values rekeyed_fleet)"
    by (simp add: sample_fleet_def rekeyed_fleet_def sample_unit_def Map_values_def)
  have p: "Math_round (jsum (map (\<lambda>u. power_w (telemetry u)) (Map_values sample_fleet))) = Fin 3300"
    by (simp add: sample_fleet_def sample_unit_def sample_record_def Map_values_def
        Math_round_def jsum_def fl_eval)
  show ?thesis
    using fleet_stats_reduction [of "''now''" sample_fleet rekeyed_fleet "Fin 0" sample_mock_draws]
      e p valid_sample_mock_draws
    by auto
qed

text \<open>
  The claim as first stated, with the total power equal to the sum itself, fails on a
  fleet with a unit that reports 3300.25 W: the sum is 3300.25 and the total is 3300.
\<close>

theorem fleet_stats_reduction_counterexample:
  "jsum (map (\<lambda>u. power_w (telemetry u)) (Map_values sample_fleet)) = Fin (13201 / 4)
   \<and> total_power_w (calculateSystemStats ''now'' sample_fleet) = Fin 3300"
  by (simp add: calculateSystemStats_unfold sample_fleet_def sample_unit_def sample_record_def
      Map_values_def Math_round_def jsum_def fl_eval)


section \<open>The average temperature\<close>

text \<open>
  C6 (amended). For every non-empty fleet state, the average temperature that
  \<open>calculateSystemStats\<close> reports is the mean of the units' temperatures as the code
  computes it, the sum formed by one double addition per unit and divided once by the
  number of units, rounded to one decimal.
\<close>

theorem avg_temperature_rounded_mean:
  "units \<noteq> [] \<Longrightarrow>
   avg_temperature_c (calculateSystemStats now units)
     = Number_toFixed 1
         (jdiv (jsum (map (\<lambda>u. temperature_c (telemetry u)) (Map_values units)))
               (Fin (real (length (Map_values units)))))"
  by (simp add: calculateSystemStats_unfold Map_values_def)

text \<open>Two units at 20 and 20.25 degrees: the mean is 20.125, the report is 20.1.\<close>

theorem avg_temperature_rounded_mean_witness:
  "sample_fleet \<noteq> []
   \<and> avg_temperature_c (calculateSystemStats ''now'' sample_fleet) = literal (201 / 10)"
proof -
  have ne: "sample_fleet \<noteq> []" by (simp add: sample_fleet_def)
  have "Number_toFixed 1
          (jdiv (jsum (map (\<lambda>u. temperature_c (telemetry u)) (Map_values sample_fleet)))
                (Fin (real (length (Map_values sample_fleet))))) = literal (201 / 10)"
    by (simp add: sample_fleet_def sample_unit_def sample_record_def Map_values_def
        Number_toFixed_def toFixed_def literal_def jsum_def fl_eval)
  then show ?thesis using avg_temperature_rounded_mean [OF ne, of "''now''"] ne by simp
qed

text \<open>
  The claim as first stated, with the report equal to the mean itself, fails on that
  fleet; and the demo feed does not take its average from the units at all, it reports
  a draw between 25 and 35.
\<close>

theorem avg_temperature_mean_counterexample:
  "jdiv (jsum (map (\<lambda>u. temperature_c (telemetry u)) (Map_values sample_fleet)))
        (Fin (real (length (Map_values sample_fleet)))) = Fin (161 / 8)
   \<and> avg_temperature_c (calculateSystemStats ''now'' sample_fleet) = literal (201 / 10)
   \<and> literal (201 / 10) \<noteq> Fin (161 / 8)
   \<and> avg_temperature_c (mock_systemStats ''now'' (Fin (1 / 2)) sample_fleet) = Fin 30"
  by (simp add: calculateSystemStats_unfold mock_systemStats_unfold sample_fleet_def
      sample_unit_def sample_record_def Map_values_def Number_toFixed_def toFixed_def
      Math_round_def round_to_def literal_def jsum_def fl_eval)


end
